theory Spec2Isabelle
  imports Complex_Main "HOL-Library.Char_ord" "HOL-Library.List_Lexorder" "HOL-Library.Sublist"
begin

section \<open>Numbers\<close>

text \<open>
  A TypeScript \<^verbatim>\<open>number\<close> is an IEEE 754 double: a finite value, one of the two
  infinities, or NaN. A finite double is modelled by its exact value, a rational, and the
  two zeros are one value, \<open>Finite 0\<close>: the code neither divides by a number that can be
  zero nor looks at the sign of a zero. Every arithmetic operation computes the exact
  result and rounds it once to the nearest double, ties to the even significand, as the
  platform does. The type also holds the rationals that are no doubles; what is proved
  for every value of the type holds for the doubles among them.
\<close>

datatype double = Finite rat | Infinity | NegInfinity | NaN

definition pow2 :: "int \<Rightarrow> rat" where
  "pow2 e = power_int 2 e"

text \<open>
  The exponent a positive value is rounded at: the largest \<open>e\<close> from \<open>-1022\<close> to
  \<open>k - 1022\<close> with \<open>2^e \<le> a\<close>, and \<open>-1022\<close> (the subnormal range) when there is none.
  The exponents of a double go up to \<open>1023\<close>.
\<close>

fun exponentBelow :: "nat \<Rightarrow> rat \<Rightarrow> int" where
  "exponentBelow 0 a = - 1022"
| "exponentBelow (Suc k) a =
     (if pow2 (int (Suc k) - 1022) \<le> a then int (Suc k) - 1022 else exponentBelow k a)"

definition exponentOf :: "rat \<Rightarrow> int" where
  "exponentOf a = exponentBelow 2045 a"

text \<open>The nearest integer, the even one of two.\<close>

definition roundHalfEven :: "rat \<Rightarrow> int" where
  "roundHalfEven x =
     (let f = \<lfloor>x\<rfloor>; d = x - of_int f
      in if d < 1 / 2 then f
         else if 1 / 2 < d then f + 1
         else if even f then f else f + 1)"

text \<open>
  Rounding an exact result to a double: the magnitude is rounded to a multiple of
  \<open>2^(e - 52)\<close>, a significand of 53 bits, and a result of \<open>2^1024\<close> or more overflows
  to an infinity.
\<close>

definition roundToDouble :: "rat \<Rightarrow> double" where
  "roundToDouble x =
     (if x = 0 then Finite 0
      else
        (let a = \<bar>x\<bar>;
             ulp = pow2 (exponentOf a - 52);
             r = of_int (roundHalfEven (a / ulp)) * ulp
         in if pow2 1024 \<le> r then (if x < 0 then NegInfinity else Infinity)
            else Finite (if x < 0 then - r else r)))"

fun double_add :: "double \<Rightarrow> double \<Rightarrow> double" where
  "double_add (Finite a) (Finite b) = roundToDouble (a + b)"
| "double_add NaN y = NaN"
| "double_add x NaN = NaN"
| "double_add Infinity NegInfinity = NaN"
| "double_add NegInfinity Infinity = NaN"
| "double_add Infinity y = Infinity"
| "double_add NegInfinity y = NegInfinity"
| "double_add (Finite a) y = y"

fun double_mul :: "double \<Rightarrow> double \<Rightarrow> double" where
  "double_mul (Finite a) (Finite b) = roundToDouble (a * b)"
| "double_mul NaN y = NaN"
| "double_mul x NaN = NaN"
| "double_mul (Finite a) y =
     (if a = 0 then NaN else if (a < 0) = (y = NegInfinity) then Infinity else NegInfinity)"
| "double_mul x (Finite b) =
     (if b = 0 then NaN else if (b < 0) = (x = NegInfinity) then Infinity else NegInfinity)"
| "double_mul Infinity Infinity = Infinity"
| "double_mul Infinity NegInfinity = NegInfinity"
| "double_mul NegInfinity Infinity = NegInfinity"
| "double_mul NegInfinity NegInfinity = Infinity"

text \<open>A zero divisor is read as the positive zero.\<close>

fun double_div :: "double \<Rightarrow> double \<Rightarrow> double" where
  "double_div (Finite a) (Finite b) =
     (if b = 0 then (if a = 0 then NaN else if 0 < a then Infinity else NegInfinity)
      else roundToDouble (a / b))"
| "double_div NaN y = NaN"
| "double_div x NaN = NaN"
| "double_div (Finite a) y = Finite 0"
| "double_div x (Finite b) = (if (b < 0) = (x = NegInfinity) then Infinity else NegInfinity)"
| "double_div Infinity Infinity = NaN"
| "double_div Infinity NegInfinity = NaN"
| "double_div NegInfinity Infinity = NaN"
| "double_div NegInfinity NegInfinity = NaN"

instantiation double :: "{zero, plus, times, inverse}"
begin

definition zero_double :: double where
  "zero_double = Finite 0"

definition plus_double :: "double \<Rightarrow> double \<Rightarrow> double" where
  "plus_double x y = double_add x y"

definition times_double :: "double \<Rightarrow> double \<Rightarrow> double" where
  "times_double x y = double_mul x y"

definition divide_double :: "double \<Rightarrow> double \<Rightarrow> double" where
  "divide_double x y = double_div x y"

definition inverse_double :: "double \<Rightarrow> double" where
  "inverse_double x = double_div (Finite 1) x"

instance ..

end

text \<open>Truth of a number: zero and NaN are falsy. The JavaScript \<^verbatim>\<open>a || b\<close> on numbers.\<close>

definition truthy :: "double \<Rightarrow> bool" where
  "truthy x \<longleftrightarrow> x \<noteq> Finite 0 \<and> x \<noteq> NaN"

definition or_else :: "double \<Rightarrow> double \<Rightarrow> double" where
  "or_else a b = (if truthy a then a else b)"


text \<open>The JavaScript \<^verbatim>\<open>a !== b\<close> on numbers: NaN differs from everything.\<close>

definition strictNotEqual :: "double \<Rightarrow> double \<Rightarrow> bool" where
  "strictNotEqual a b \<longleftrightarrow> a = NaN \<or> b = NaN \<or> a \<noteq> b"

text \<open>
  Page coordinates and sizes, in millimetres and points, are sums and differences of the
  page size and small constants; they are kept as exact values.
\<close>

type_synonym coord = rat

text \<open>What a failing lookup or a failing library call throws.\<close>

datatype error = FirestoreError | TypeError | RangeError | LibraryError

section \<open>Data model (src/lib/invoice-helpers.ts)\<close>

record InvoiceItem =
  item_id :: string
  description :: string
  quantity :: double
  price :: double
  total :: double

record InvoiceTotals =
  subtotal :: double
  tax :: double
  totalAmount :: double

section \<open>Totals calculator\<close>

text \<open>
  \<^verbatim>\<open>calculateInvoiceTotals(items, taxRate = 0)\<close>: the default applies when the caller
  passes \<^verbatim>\<open>undefined\<close>, modelled as \<open>None\<close>. \<^verbatim>\<open>reduce\<close> is a left fold. The sum, the
  product and the quotient are those of doubles.
\<close>

definition calculateInvoiceTotals :: "InvoiceItem list \<Rightarrow> double option \<Rightarrow> InvoiceTotals" where
  "calculateInvoiceTotals items taxRate_arg =
     (let taxRate = (case taxRate_arg of None \<Rightarrow> 0 | Some r \<Rightarrow> r);
          subtotal = foldl (\<lambda>sum item. sum + or_else (total item) 0) 0 items;
          tax = subtotal * (taxRate / Finite 100);
          totalAmount = subtotal + tax
      in \<lparr>subtotal = subtotal, tax = tax, totalAmount = totalAmount\<rparr>)"

text \<open>
  The effect of NewInvoicePage and EditInvoicePage that runs when the watched items or
  the tax rate change (src/unnamed/part_001 lines 181-214, part_002 lines 139-172).
  It does nothing on an empty item list (\<open>None\<close>); otherwise it yields the totals it
  writes to the form and the item list the form holds afterwards. The flag that keeps
  the effect from re-entering itself is not modelled: this is one run of it.
\<close>

definition updatedItems :: "InvoiceItem list \<Rightarrow> InvoiceItem list" where
  "updatedItems watchedItems =
     map (\<lambda>item. item\<lparr>total := quantity item * price item\<rparr>) watchedItems"

definition itemsNeedUpdate :: "InvoiceItem list \<Rightarrow> InvoiceItem list \<Rightarrow> bool" where
  "itemsNeedUpdate upd watchedItems =
     list_ex (\<lambda>(item, index). strictNotEqual (total item) (total (watchedItems ! index)))
       (zip upd [0..<length upd])"

definition totalsEffect ::
  "InvoiceItem list \<Rightarrow> double option \<Rightarrow> (InvoiceTotals \<times> InvoiceItem list) option" where
  "totalsEffect watchedItems watchedTaxRate =
     (if length watchedItems > 0
      then (let upd = updatedItems watchedItems;
                totals = calculateInvoiceTotals upd watchedTaxRate
            in Some (totals, if itemsNeedUpdate upd watchedItems then upd else watchedItems))
      else None)"

text \<open>
  The sum of a list of doubles, added from the left starting at zero: what a sum over the
  items is in the arithmetic of doubles.
\<close>

definition sumLeft :: "double list \<Rightarrow> double" where
  "sumLeft xs = foldl (+) 0 xs"

section \<open>Strings\<close>

text \<open>
  Strings are byte strings (UTF-8). \<open>showNat\<close> is the decimal rendering that
  \<^verbatim>\<open>toString()\<close> gives a non-negative integer, \<open>intToString\<close> the one it gives
  any integer.
\<close>

definition digitChar :: "nat \<Rightarrow> char" where
  "digitChar d = ''0123456789'' ! d"

fun showNat :: "nat \<Rightarrow> string" where
  "showNat n = (if n < 10 then [digitChar n] else showNat (n div 10) @ [digitChar (n mod 10)])"

declare showNat.simps [simp del]

definition intToString :: "int \<Rightarrow> string" where
  "intToString i = (if i < 0 then ''-'' @ showNat (nat (- i)) else showNat (nat i))"

text \<open>\<^verbatim>\<open>s.padStart(n, c)\<close> with a one-character filler.\<close>

definition padStart :: "nat \<Rightarrow> char \<Rightarrow> string \<Rightarrow> string" where
  "padStart n c s = replicate (n - length s) c @ s"

definition startsWith :: "string \<Rightarrow> string \<Rightarrow> bool" where
  "startsWith s p = prefix p s"

text \<open>\<^verbatim>\<open>s.replace(pat, rep)\<close> with a string pattern: the first occurrence only.\<close>

fun replace :: "string \<Rightarrow> string \<Rightarrow> string \<Rightarrow> string" where
  "replace [] pat rep = (if pat = [] then rep else [])"
| "replace (c # cs) pat rep =
     (if prefix pat (c # cs) then rep @ drop (length pat) (c # cs) else c # replace cs pat rep)"

text \<open>
  \<^verbatim>\<open>Number.parseInt(s, 10)\<close>: leading white space is skipped, then an optional sign,
  then the longest run of decimal digits is read; \<open>None\<close> is NaN (no digit). White space
  is the ASCII white space and the UTF-8 encodings of U+00A0, U+FEFF, U+1680, U+2000 to
  U+200A, U+2028, U+2029, U+202F, U+205F and U+3000.
\<close>

definition whiteSpaceSeqs :: "string list" where
  "whiteSpaceSeqs =
     map (\<lambda>c. [c]) [CHR 0x09, CHR 0x0A, CHR 0x0B, CHR 0x0C, CHR 0x0D, CHR 0x20] @
     [[CHR 0xC2, CHR 0xA0], [CHR 0xEF, CHR 0xBB, CHR 0xBF], [CHR 0xE1, CHR 0x9A, CHR 0x80]] @
     map (\<lambda>c. [CHR 0xE2, CHR 0x80, c])
       [CHR 0x80, CHR 0x81, CHR 0x82, CHR 0x83, CHR 0x84, CHR 0x85, CHR 0x86, CHR 0x87,
        CHR 0x88, CHR 0x89, CHR 0x8A, CHR 0xA8, CHR 0xA9, CHR 0xAF] @
     [[CHR 0xE2, CHR 0x81, CHR 0x9F], [CHR 0xE3, CHR 0x80, CHR 0x80]]"

fun trimStart :: "string \<Rightarrow> string" where
  "trimStart [] = []"
| "trimStart (c # cs) =
     (case filter (\<lambda>w. prefix w (c # cs)) whiteSpaceSeqs of
        [] \<Rightarrow> c # cs
      | w # _ \<Rightarrow> trimStart (drop (length w - 1) cs))"

definition isDigit :: "char \<Rightarrow> bool" where
  "isDigit c \<longleftrightarrow> c \<in> set ''0123456789''"

definition digitValue :: "char \<Rightarrow> nat" where
  "digitValue c = of_char c - of_char CHR ''0''"

definition digitsValue :: "string \<Rightarrow> nat" where
  "digitsValue ds = foldl (\<lambda>acc c. 10 * acc + digitValue c) 0 ds"

definition parseInt :: "string \<Rightarrow> int option" where
  "parseInt s =
     (let t = trimStart s;
          negative = (case t of [] \<Rightarrow> False | c # _ \<Rightarrow> c = CHR ''-'');
          u = (case t of [] \<Rightarrow> [] | c # r \<Rightarrow> if c = CHR ''-'' \<or> c = CHR ''+'' then r else t);
          ds = takeWhile isDigit u
      in if ds = [] then None
         else Some (if negative then - int (digitsValue ds) else int (digitsValue ds)))"

section \<open>String literals of the renderer\<close>

text \<open>
  The Arabic literals of src/lib/pdf-helpers.ts, as their UTF-8 bytes, and the two
  currency symbols outside ASCII.
\<close>

definition ar_Email :: string where \<comment> \<open>Arabic for \<^verbatim>\<open>Email: \<close>\<close>
  "ar_Email =
     [CHR 0xD8, CHR 0xA7, CHR 0xD9, CHR 0x84, CHR 0xD8, CHR 0xA8, CHR 0xD8, CHR 0xB1, CHR 0xD9,
      CHR 0x8A, CHR 0xD8, CHR 0xAF, CHR 0x20, CHR 0xD8, CHR 0xA7, CHR 0xD9, CHR 0x84, CHR 0xD8,
      CHR 0xA5, CHR 0xD9, CHR 0x84, CHR 0xD9, CHR 0x83, CHR 0xD8, CHR 0xAA, CHR 0xD8, CHR 0xB1,
      CHR 0xD9, CHR 0x88, CHR 0xD9, CHR 0x86, CHR 0xD9, CHR 0x8A, CHR 0x3A, CHR 0x20]"

definition ar_Phone :: string where \<comment> \<open>Arabic for \<^verbatim>\<open>Phone: \<close>\<close>
  "ar_Phone =
     [CHR 0xD8, CHR 0xA7, CHR 0xD9, CHR 0x84, CHR 0xD9, CHR 0x87, CHR 0xD8, CHR 0xA7, CHR 0xD8,
      CHR 0xAA, CHR 0xD9, CHR 0x81, CHR 0x3A, CHR 0x20]"

definition ar_Website :: string where \<comment> \<open>Arabic for \<^verbatim>\<open>Website: \<close>\<close>
  "ar_Website =
     [CHR 0xD8, CHR 0xA7, CHR 0xD9, CHR 0x84, CHR 0xD9, CHR 0x85, CHR 0xD9, CHR 0x88, CHR 0xD9,
      CHR 0x82, CHR 0xD8, CHR 0xB9, CHR 0x20, CHR 0xD8, CHR 0xA7, CHR 0xD9, CHR 0x84, CHR 0xD8,
      CHR 0xA5, CHR 0xD9, CHR 0x84, CHR 0xD9, CHR 0x83, CHR 0xD8, CHR 0xAA, CHR 0xD8, CHR 0xB1,
      CHR 0xD9, CHR 0x88, CHR 0xD9, CHR 0x86, CHR 0xD9, CHR 0x8A, CHR 0x3A, CHR 0x20]"

definition ar_TaxNumber :: string where \<comment> \<open>Arabic for \<^verbatim>\<open>Tax Number: \<close>\<close>
  "ar_TaxNumber =
     [CHR 0xD8, CHR 0xA7, CHR 0xD9, CHR 0x84, CHR 0xD8, CHR 0xB1, CHR 0xD9, CHR 0x82, CHR 0xD9,
      CHR 0x85, CHR 0x20, CHR 0xD8, CHR 0xA7, CHR 0xD9, CHR 0x84, CHR 0xD8, CHR 0xB6, CHR 0xD8,
      CHR 0xB1, CHR 0xD9, CHR 0x8A, CHR 0xD8, CHR 0xA8, CHR 0xD9, CHR 0x8A, CHR 0x3A, CHR 0x20]"

definition ar_INVOICE :: string where \<comment> \<open>Arabic for \<^verbatim>\<open>INVOICE\<close>\<close>
  "ar_INVOICE =
     [CHR 0xD9, CHR 0x81, CHR 0xD8, CHR 0xA7, CHR 0xD8, CHR 0xAA, CHR 0xD9, CHR 0x88, CHR 0xD8,
      CHR 0xB1, CHR 0xD8, CHR 0xA9]"

definition ar_InvoiceNumber :: string where \<comment> \<open>Arabic for \<^verbatim>\<open>Invoice Number: \<close>\<close>
  "ar_InvoiceNumber =
     [CHR 0xD8, CHR 0xB1, CHR 0xD9, CHR 0x82, CHR 0xD9, CHR 0x85, CHR 0x20, CHR 0xD8, CHR 0xA7,
      CHR 0xD9, CHR 0x84, CHR 0xD9, CHR 0x81, CHR 0xD8, CHR 0xA7, CHR 0xD8, CHR 0xAA, CHR 0xD9,
      CHR 0x88, CHR 0xD8, CHR 0xB1, CHR 0xD8, CHR 0xA9, CHR 0x3A, CHR 0x20]"

definition ar_Date :: string where \<comment> \<open>Arabic for \<^verbatim>\<open>Date: \<close>\<close>
  "ar_Date =
     [CHR 0xD8, CHR 0xA7, CHR 0xD9, CHR 0x84, CHR 0xD8, CHR 0xAA, CHR 0xD8, CHR 0xA7, CHR 0xD8,
      CHR 0xB1, CHR 0xD9, CHR 0x8A, CHR 0xD8, CHR 0xAE, CHR 0x3A, CHR 0x20]"

definition ar_DueDate :: string where \<comment> \<open>Arabic for \<^verbatim>\<open>Due Date: \<close>\<close>
  "ar_DueDate =
     [CHR 0xD8, CHR 0xAA, CHR 0xD8, CHR 0xA7, CHR 0xD8, CHR 0xB1, CHR 0xD9, CHR 0x8A, CHR 0xD8,
      CHR 0xAE, CHR 0x20, CHR 0xD8, CHR 0xA7, CHR 0xD9, CHR 0x84, CHR 0xD8, CHR 0xA7, CHR 0xD8,
      CHR 0xB3, CHR 0xD8, CHR 0xAA, CHR 0xD8, CHR 0xAD, CHR 0xD9, CHR 0x82, CHR 0xD8, CHR 0xA7,
      CHR 0xD9, CHR 0x82, CHR 0x3A, CHR 0x20]"

definition ar_BillTo :: string where \<comment> \<open>Arabic for \<^verbatim>\<open>Bill To:\<close>\<close>
  "ar_BillTo =
     [CHR 0xD9, CHR 0x81, CHR 0xD8, CHR 0xA7, CHR 0xD8, CHR 0xAA, CHR 0xD9, CHR 0x88, CHR 0xD8,
      CHR 0xB1, CHR 0xD8, CHR 0xA9, CHR 0x20, CHR 0xD8, CHR 0xA5, CHR 0xD9, CHR 0x84, CHR 0xD9,
      CHR 0x89, CHR 0x3A]"

definition ar_Item :: string where \<comment> \<open>Arabic for \<^verbatim>\<open>Item\<close>\<close>
  "ar_Item =
     [CHR 0xD8, CHR 0xA7, CHR 0xD9, CHR 0x84, CHR 0xD8, CHR 0xA8, CHR 0xD9, CHR 0x86, CHR 0xD8,
      CHR 0xAF]"

definition ar_Quantity :: string where \<comment> \<open>Arabic for \<^verbatim>\<open>Quantity\<close>\<close>
  "ar_Quantity =
     [CHR 0xD8, CHR 0xA7, CHR 0xD9, CHR 0x84, CHR 0xD9, CHR 0x83, CHR 0xD9, CHR 0x85, CHR 0xD9,
      CHR 0x8A, CHR 0xD8, CHR 0xA9]"

definition ar_Price :: string where \<comment> \<open>Arabic for \<^verbatim>\<open>Price\<close>\<close>
  "ar_Price =
     [CHR 0xD8, CHR 0xA7, CHR 0xD9, CHR 0x84, CHR 0xD8, CHR 0xB3, CHR 0xD8, CHR 0xB9, CHR 0xD8,
      CHR 0xB1]"

definition ar_Total :: string where \<comment> \<open>Arabic for \<^verbatim>\<open>Total\<close>\<close>
  "ar_Total =
     [CHR 0xD8, CHR 0xA7, CHR 0xD9, CHR 0x84, CHR 0xD9, CHR 0x85, CHR 0xD8, CHR 0xAC, CHR 0xD9,
      CHR 0x85, CHR 0xD9, CHR 0x88, CHR 0xD8, CHR 0xB9]"

definition ar_SubtotalColon :: string where \<comment> \<open>Arabic for \<^verbatim>\<open>Subtotal:\<close>\<close>
  "ar_SubtotalColon =
     [CHR 0xD8, CHR 0xA7, CHR 0xD9, CHR 0x84, CHR 0xD9, CHR 0x85, CHR 0xD8, CHR 0xAC, CHR 0xD9,
      CHR 0x85, CHR 0xD9, CHR 0x88, CHR 0xD8, CHR 0xB9, CHR 0x20, CHR 0xD8, CHR 0xA7, CHR 0xD9,
      CHR 0x84, CHR 0xD9, CHR 0x81, CHR 0xD8, CHR 0xB1, CHR 0xD8, CHR 0xB9, CHR 0xD9, CHR 0x8A,
      CHR 0x3A]"

definition ar_Tax :: string where \<comment> \<open>Arabic for \<^verbatim>\<open>Tax\<close>\<close>
  "ar_Tax =
     [CHR 0xD8, CHR 0xA7, CHR 0xD9, CHR 0x84, CHR 0xD8, CHR 0xB6, CHR 0xD8, CHR 0xB1, CHR 0xD9,
      CHR 0x8A, CHR 0xD8, CHR 0xA8, CHR 0xD8, CHR 0xA9]"

definition ar_TotalColon :: string where \<comment> \<open>Arabic for \<^verbatim>\<open>Total:\<close>\<close>
  "ar_TotalColon =
     [CHR 0xD8, CHR 0xA7, CHR 0xD9, CHR 0x84, CHR 0xD9, CHR 0x85, CHR 0xD8, CHR 0xAC, CHR 0xD9,
      CHR 0x85, CHR 0xD9, CHR 0x88, CHR 0xD8, CHR 0xB9, CHR 0x3A]"

definition ar_Notes :: string where \<comment> \<open>Arabic for \<^verbatim>\<open>Notes:\<close>\<close>
  "ar_Notes =
     [CHR 0xD9, CHR 0x85, CHR 0xD9, CHR 0x84, CHR 0xD8, CHR 0xA7, CHR 0xD8, CHR 0xAD, CHR 0xD8,
      CHR 0xB8, CHR 0xD8, CHR 0xA7, CHR 0xD8, CHR 0xAA, CHR 0x3A]"

definition ar_Terms :: string where \<comment> \<open>Arabic for \<^verbatim>\<open>Terms and Conditions:\<close>\<close>
  "ar_Terms =
     [CHR 0xD8, CHR 0xA7, CHR 0xD9, CHR 0x84, CHR 0xD8, CHR 0xB4, CHR 0xD8, CHR 0xB1, CHR 0xD9,
      CHR 0x88, CHR 0xD8, CHR 0xB7, CHR 0x20, CHR 0xD9, CHR 0x88, CHR 0xD8, CHR 0xA7, CHR 0xD9,
      CHR 0x84, CHR 0xD8, CHR 0xA3, CHR 0xD8, CHR 0xAD, CHR 0xD9, CHR 0x83, CHR 0xD8, CHR 0xA7,
      CHR 0xD9, CHR 0x85, CHR 0x3A]"

definition ar_GeneratedOn :: string where \<comment> \<open>Arabic for \<^verbatim>\<open>Generated on \<close>\<close>
  "ar_GeneratedOn =
     [CHR 0xD8, CHR 0xAA, CHR 0xD9, CHR 0x85, CHR 0x20, CHR 0xD8, CHR 0xA5, CHR 0xD9, CHR 0x86,
      CHR 0xD8, CHR 0xB4, CHR 0xD8, CHR 0xA7, CHR 0xD8, CHR 0xA4, CHR 0xD9, CHR 0x87, CHR 0xD8,
      CHR 0xA7, CHR 0x20, CHR 0xD9, CHR 0x81, CHR 0xD9, CHR 0x8A, CHR 0x20]"

definition ar_SAR :: string where \<comment> \<open>Arabic for the SAR symbol\<close>
  "ar_SAR =
     [CHR 0xD8, CHR 0xB1, CHR 0x2E, CHR 0xD8, CHR 0xB3]"

definition euroSign :: string where \<comment> \<open>U+20AC\<close>
  "euroSign = [CHR 0xE2, CHR 0x82, CHR 0xAC]"

definition poundSign :: string where \<comment> \<open>U+00A3\<close>
  "poundSign = [CHR 0xC2, CHR 0xA3]"

section \<open>Drawing instructions and the runtime\<close>

text \<open>
  The renderer drives a jsPDF document. Its output is modelled as the sequence of calls
  it makes on the document, in order, with their arguments; a call that throws is in
  the sequence too. \<open>Text\<close> carries the \<^verbatim>\<open>align\<close> and \<^verbatim>\<open>maxWidth\<close> options when the
  call passes them.
\<close>

datatype Align = AlignLeft | AlignRight | AlignCenter

datatype Cell = CellString string | CellNumber double

record ColumnStyle =
  cellWidth :: "coord option"  \<comment> \<open>\<open>None\<close> is \<^verbatim>\<open>"auto"\<close>\<close>
  column_halign :: "Align option"

record AutoTableOptions =
  startY :: coord
  head :: "string list list"
  body :: "Cell list list"
  margin_left :: coord
  margin_right :: coord
  overflow :: string
  font :: string
  halign :: Align
  headFillColor :: "nat \<times> nat \<times> nat"
  columnStyles :: "ColumnStyle list"

datatype Instr =
    AddImage string string coord coord coord coord
  | SetFontSize coord
  | Text string coord coord "Align option" "coord option"
  | AutoTable AutoTableOptions
  | SetFillColor nat nat nat
  | Rect coord coord coord coord string
  | Save string

text \<open>
  What the renderer takes from the platform and from the two libraries:
  \<^item> \<open>numberToString\<close>: the conversion of a number to a string (template literals, and
    \<^verbatim>\<open>toFixed\<close> from \<open>10^21\<close> on and on the values that are not finite);
  \<^item> \<open>toLocaleDateString locale t\<close>, \<open>toLocaleString locale t\<close>: the locale's rendering
    of the valid time value \<open>t\<close> (\<open>None\<close> is the default locale);
  \<^item> \<open>now\<close>: the clock, the time value of \<^verbatim>\<open>new Date()\<close>;
  \<^item> \<open>pageWidth\<close>, \<open>pageHeight\<close>: the size of the A4 page in millimetres, as jsPDF reports it;
  \<^item> \<open>addImage_throws url\<close>: whether \<^verbatim>\<open>doc.addImage\<close> throws on this image;
  \<^item> \<open>autoTable_finalY opts\<close>: \<^verbatim>\<open>autoTable\<close> throws, or draws the table and records
    \<^verbatim>\<open>lastAutoTable.finalY\<close>;
  \<^item> \<open>splitTextToSize text width\<close>: the lines jsPDF wraps the text into.
\<close>

record Runtime =
  numberToString :: "double \<Rightarrow> string"
  toLocaleDateString :: "string \<Rightarrow> int \<Rightarrow> string"
  toLocaleString :: "string option \<Rightarrow> int \<Rightarrow> string"
  now :: int
  pageWidth :: coord
  pageHeight :: coord
  addImage_throws :: "string \<Rightarrow> bool"
  autoTable_finalY :: "AutoTableOptions \<Rightarrow> error + coord"
  splitTextToSize :: "string \<Rightarrow> coord \<Rightarrow> string list"

section \<open>Money formatter (src/lib/pdf-helpers.ts)\<close>

definition getCurrencySymbol :: "string \<Rightarrow> string" where
  "getCurrencySymbol currency =
     (if currency = ''SAR'' then ar_SAR
      else if currency = ''USD'' then ''$''
      else if currency = ''EUR'' then euroSign
      else if currency = ''GBP'' then poundSign
      else ''$'')"

text \<open>
  \<^verbatim>\<open>Number.prototype.toFixed(fractionDigits)\<close>, after ECMA-262: a RangeError outside
  0..100; an infinity or NaN gives its plain conversion to a string; otherwise the sign
  is split off; from \<open>10^21\<close> on the result is the plain conversion (exponential
  notation); below that \<open>n\<close> is the integer nearest to \<open>x * 10^f\<close> (the larger of two),
  written with \<open>f\<close> digits after the point. The digits are those of the double's exact
  value.
\<close>

definition toFixed :: "Runtime \<Rightarrow> double \<Rightarrow> nat \<Rightarrow> error + string" where
  "toFixed rt d f =
     (if f > 100 then Inl RangeError
      else
        (case d of
           Finite x0 \<Rightarrow>
             (let s = (if x0 < 0 then ''-'' else []);
                  x = (if x0 < 0 then - x0 else x0)
              in if x \<ge> 10 ^ 21 then Inr (s @ numberToString rt (Finite x))
                 else
                   (let n = nat \<lfloor>x * 10 ^ f + 1 / 2\<rfloor>;
                        m = showNat n
                    in if f \<noteq> 0
                       then
                         (let k = length m;
                              m = (if k \<le> f then replicate (f + 1 - k) CHR ''0'' @ m else m);
                              k = (if k \<le> f then f + 1 else k)
                          in Inr (s @ take (k - f) m @ ''.'' @ drop (k - f) m))
                       else Inr (s @ m)))
         | _ \<Rightarrow> Inr (numberToString rt d)))"

definition formatCurrency :: "Runtime \<Rightarrow> double \<Rightarrow> string \<Rightarrow> string \<Rightarrow> error + string" where
  "formatCurrency rt amount currency symbol =
     (case toFixed rt amount 2 of
        Inl e \<Rightarrow> Inl e
      | Inr fixed \<Rightarrow> Inr (symbol @ '' '' @ fixed))"

section \<open>Invoices and settings\<close>

datatype InvoiceStatus = draft | pending | paid

text \<open>
  A JavaScript \<^verbatim>\<open>Date\<close> object holds a time value (milliseconds since the epoch) or is
  invalid. The \<^verbatim>\<open>date\<close> and \<^verbatim>\<open>dueDate\<close> an invoice carries when it reaches the
  renderer are untyped (\<^verbatim>\<open>invoice: any\<close>):
  \<^item> \<open>Absent\<close>: a falsy value (\<^verbatim>\<open>undefined\<close>, \<^verbatim>\<open>null\<close>, the empty string);
  \<^item> \<open>Timestamp d\<close>: a Firestore timestamp, whose \<^verbatim>\<open>toDate()\<close> returns \<open>d\<close>;
  \<^item> \<open>DateInput d\<close>: a truthy value without \<^verbatim>\<open>toDate\<close> for which \<^verbatim>\<open>new Date(value)\<close>
    is \<open>d\<close> (a date object, a number, a string; \<open>d\<close> is \<open>InvalidDate\<close> when the string
    cannot be parsed);
  \<^item> \<open>Throwing\<close>: a truthy value whose conversion throws (a \<^verbatim>\<open>toDate\<close> property that is
    not callable, or one that throws when called).
\<close>

datatype JsDate = Date int | InvalidDate

datatype DateValue = Absent | Timestamp JsDate | DateInput JsDate | Throwing

record Invoice = InvoiceTotals +
  invoiceNumber :: string
  date :: DateValue
  dueDate :: DateValue
  clientName :: string
  clientEmail :: string
  clientAddress :: "string option"
  status :: InvoiceStatus
  items :: "InvoiceItem list"
  taxRate :: double
  notes_inv :: "string option"  \<comment> \<open>the field \<^verbatim>\<open>notes\<close>\<close>
  terms :: "string option"

text \<open>
  The settings document (src/app/dashboard/settings/page.tsx, the form schema). Every field
  may be missing from the stored document; \<open>nextInvoiceNumber\<close> is a positive integer when
  the settings form wrote it.
\<close>

record CompanySettings =
  companyName :: "string option"
  address :: "string option"
  email :: "string option"
  phone :: "string option"
  website :: "string option"
  taxNumber :: "string option"
  logoUrl :: "string option"
  termsAndConditions :: "string option"
  currency :: "string option"
  language :: "string option"
  nextInvoiceNumber :: "nat option"

section \<open>Invoice number allocator\<close>

text \<open>
  The Firestore database as the allocator sees it: the documents of the two collections,
  and whether a lookup of each collection throws.
\<close>

record Firestore =
  settingsDocs :: "CompanySettings list"
  invoiceDocs :: "Invoice list"
  settingsUnreachable :: bool
  invoicesUnreachable :: bool

text \<open>\<^verbatim>\<open>getDocs(query(collection(db, "settings")))\<close>\<close>

definition getDocs_settings :: "Firestore \<Rightarrow> error + CompanySettings list" where
  "getDocs_settings db =
     (if settingsUnreachable db then Inl FirestoreError else Inr (settingsDocs db))"

text \<open>
  \<^verbatim>\<open>getDocs(query(collection(db, "invoices"), orderBy("invoiceNumber", "desc"), limit(1)))\<close>:
  Firestore orders strings by their UTF-8 bytes, which is the lexicographic order of
  byte strings.
\<close>

definition getDocs_lastInvoice :: "Firestore \<Rightarrow> error + Invoice list" where
  "getDocs_lastInvoice db =
     (if invoicesUnreachable db then Inl FirestoreError
      else Inr (take 1 (rev (sort_key invoiceNumber (invoiceDocs db)))))"

definition formatInvoiceNumber :: "int \<Rightarrow> string" where
  "formatInvoiceNumber n = ''INV-'' @ padStart 4 CHR ''0'' (intToString n)"

text \<open>
  The two sources the allocator consults, each yielding a proposed identifier or nothing:
  the stored counter of the first settings document, and the last invoice of the query.
\<close>

definition fromSettings :: "CompanySettings list \<Rightarrow> string option" where
  "fromSettings settingsSnapshot =
     (case settingsSnapshot of
        [] \<Rightarrow> None
      | settings # _ \<Rightarrow>
          (case nextInvoiceNumber settings of
             None \<Rightarrow> None
           | Some n \<Rightarrow> if n \<noteq> 0 then Some (formatInvoiceNumber (int n)) else None))"

definition fromLastInvoice :: "Invoice list \<Rightarrow> string option" where
  "fromLastInvoice invoicesSnapshot =
     (case invoicesSnapshot of
        [] \<Rightarrow> None
      | lastInvoice # _ \<Rightarrow>
          (let lastInvoiceNumber = invoiceNumber lastInvoice
           in if lastInvoiceNumber \<noteq> [] \<and> startsWith lastInvoiceNumber ''INV-''
              then (case parseInt (replace lastInvoiceNumber ''INV-'' []) of
                      None \<Rightarrow> None
                    | Some numberPart \<Rightarrow> Some (formatInvoiceNumber (numberPart + 1)))
              else None))"

text \<open>The body of the \<^verbatim>\<open>try\<close> block of \<^verbatim>\<open>getNextInvoiceNumber\<close>.\<close>

definition getNextInvoiceNumber_try :: "Firestore \<Rightarrow> error + string" where
  "getNextInvoiceNumber_try db =
     (case getDocs_settings db of
        Inl e \<Rightarrow> Inl e
      | Inr settingsSnapshot \<Rightarrow>
          (case fromSettings settingsSnapshot of
             Some result \<Rightarrow> Inr result
           | None \<Rightarrow>
               (case getDocs_lastInvoice db of
                  Inl e \<Rightarrow> Inl e
                | Inr invoicesSnapshot \<Rightarrow>
                    (case fromLastInvoice invoicesSnapshot of
                       Some result \<Rightarrow> Inr result
                     | None \<Rightarrow> Inr ''INV-0001''))))"

definition getNextInvoiceNumber :: "Firestore \<Rightarrow> string" where
  "getNextInvoiceNumber db =
     (case getNextInvoiceNumber_try db of Inl e \<Rightarrow> ''INV-0001'' | Inr result \<Rightarrow> result)"

text \<open>
  NewInvoicePage (src/unnamed/part_002): the page proposes the allocator's identifier as
  the form's invoice number (line 108), and \<^verbatim>\<open>onSubmit\<close> stores the form data as
  a new invoice document (line 202). Nothing else is written: the settings document and
  its counter stay as they are.
\<close>

definition onSubmit :: "Firestore \<Rightarrow> Invoice \<Rightarrow> Firestore" where
  "onSubmit db data = db\<lparr>invoiceDocs := invoiceDocs db @ [data]\<rparr>"

text \<open>The numeric suffix of an identifier \<^verbatim>\<open>INV-nnnn\<close>.\<close>

definition numericSuffix :: "string \<Rightarrow> int option" where
  "numericSuffix s = parseInt (drop 4 s)"

section \<open>Document layout engine (src/lib/pdf-helpers.ts, generatePdf)\<close>

text \<open>
  \<^verbatim>\<open>settings?.field\<close>: the settings may be missing altogether, and so may every field.
  A missing string and the empty string are both falsy, and the renderer only tests
  strings for truth or compares them with a non-empty literal, so both read as \<open>[]\<close>.
\<close>

definition strOf :: "string option \<Rightarrow> string" where
  "strOf v = (case v of None \<Rightarrow> [] | Some s \<Rightarrow> s)"

definition setting :: "(CompanySettings \<Rightarrow> string option) \<Rightarrow> CompanySettings option \<Rightarrow> string" where
  "setting field settings = (case settings of None \<Rightarrow> [] | Some s \<Rightarrow> strOf (field s))"

text \<open>The JavaScript \<^verbatim>\<open>a || b\<close> on strings.\<close>

definition str_or_else :: "string \<Rightarrow> string \<Rightarrow> string" where
  "str_or_else a b = (if a \<noteq> [] then a else b)"

text \<open>
  The state of a render: the calls made on the document so far, and the vertical
  cursor \<^verbatim>\<open>yPos\<close>.
\<close>

type_synonym render = "Instr list \<times> coord"

definition emit :: "Instr \<Rightarrow> render \<Rightarrow> render" where
  "emit i st = (fst st @ [i], snd st)"

definition advance :: "coord \<Rightarrow> render \<Rightarrow> render" where
  "advance d st = (fst st, snd st + d)"

text \<open>
  \<^verbatim>\<open>if (present) { doc.text(str, x, yPos, { align }); yPos += 5 }\<close>, the shape of
  every optional line of the contact and client blocks.
\<close>

definition optionalLine :: "bool \<Rightarrow> string \<Rightarrow> coord \<Rightarrow> Align \<Rightarrow> render \<Rightarrow> render" where
  "optionalLine present str x align st =
     (if present then advance 5 (emit (Text str x (snd st) (Some align) None) st) else st)"

definition margin :: coord where
  "margin = 20"

text \<open>Lines 22-36: the logo, or the company name as a heading.\<close>

definition header :: "Runtime \<Rightarrow> CompanySettings option \<Rightarrow> render \<Rightarrow> render" where
  "header rt settings st =
     (if setting logoUrl settings \<noteq> []
      then
        (let st = emit (AddImage (setting logoUrl settings) ''JPEG'' margin (snd st) 50 20) st
         in if addImage_throws rt (setting logoUrl settings) then st else advance 25 st)
      else
        (let st = emit (SetFontSize 24) st;
             st = emit (Text (str_or_else (setting companyName settings) ''Company Name'')
                          margin (snd st) None None) st
         in advance 15 st))"

text \<open>Lines 38-78: the company contact block.\<close>

definition companyDetails ::
  "Runtime \<Rightarrow> CompanySettings option \<Rightarrow> bool \<Rightarrow> Align \<Rightarrow> render \<Rightarrow> render" where
  "companyDetails rt settings isArabic textAlign st =
     (let st = emit (SetFontSize 10) st;
          st = optionalLine (setting address settings \<noteq> []) (setting address settings)
                 (if isArabic then pageWidth rt - margin else margin) textAlign st;
          st = optionalLine (setting email settings \<noteq> [])
                 ((if isArabic then ar_Email else ''Email: '') @ setting email settings)
                 (if isArabic then pageWidth rt - margin else margin) textAlign st;
          st = optionalLine (setting phone settings \<noteq> [])
                 ((if isArabic then ar_Phone else ''Phone: '') @ setting phone settings)
                 (if isArabic then pageWidth rt - margin else margin) textAlign st;
          st = optionalLine (setting website settings \<noteq> [])
                 ((if isArabic then ar_Website else ''Website: '') @ setting website settings)
                 (if isArabic then pageWidth rt - margin else margin) textAlign st;
          st = optionalLine (setting taxNumber settings \<noteq> [])
                 ((if isArabic then ar_TaxNumber else ''Tax Number: '') @ setting taxNumber settings)
                 (if isArabic then pageWidth rt - margin else margin) textAlign st
      in advance 10 st)"

text \<open>Lines 97-105: the date formatter, a closure over \<^verbatim>\<open>isArabic\<close>.\<close>

definition toLocaleDateString_of :: "Runtime \<Rightarrow> JsDate \<Rightarrow> string \<Rightarrow> string" where
  "toLocaleDateString_of rt d locale =
     (case d of InvalidDate \<Rightarrow> ''Invalid Date'' | Date t \<Rightarrow> toLocaleDateString rt locale t)"

definition formatDate_try :: "Runtime \<Rightarrow> bool \<Rightarrow> DateValue \<Rightarrow> error + string" where
  "formatDate_try rt isArabic dateValue =
     (case (case dateValue of
              Timestamp d \<Rightarrow> Inr d
            | DateInput d \<Rightarrow> Inr d
            | Throwing \<Rightarrow> Inl TypeError
            | Absent \<Rightarrow> Inr InvalidDate  \<comment> \<open>not reached: \<open>formatDate\<close> returns before\<close>
            ) of
        Inl e \<Rightarrow> Inl e
      | Inr d \<Rightarrow> Inr (toLocaleDateString_of rt d (if isArabic then ''ar-SA'' else ''en-US'')))"

definition formatDate :: "Runtime \<Rightarrow> bool \<Rightarrow> DateValue \<Rightarrow> string" where
  "formatDate rt isArabic dateValue =
     (if dateValue = Absent then ''N/A''
      else (case formatDate_try rt isArabic dateValue of
              Inl e \<Rightarrow> ''Invalid Date''
            | Inr s \<Rightarrow> s))"

text \<open>Lines 80-120: the title and the invoice details, on the opposite edge.\<close>

definition invoiceDetails ::
  "Runtime \<Rightarrow> Invoice \<Rightarrow> bool \<Rightarrow> render \<Rightarrow> render" where
  "invoiceDetails rt invoice isArabic st =
     (let st = emit (SetFontSize 16) st;
          st = emit (Text (if isArabic then ar_INVOICE else ''INVOICE'')
                       (if isArabic then margin else pageWidth rt - margin) (snd st)
                       (Some (if isArabic then AlignLeft else AlignRight)) None) st;
          st = advance 10 st;
          st = emit (SetFontSize 10) st;
          st = emit (Text ((if isArabic then ar_InvoiceNumber else ''Invoice Number: '')
                             @ invoiceNumber invoice)
                       (if isArabic then margin else pageWidth rt - margin) (snd st)
                       (Some (if isArabic then AlignLeft else AlignRight)) None) st;
          st = advance 5 st;
          st = emit (Text ((if isArabic then ar_Date else ''Date: '')
                             @ formatDate rt isArabic (date invoice))
                       (if isArabic then margin else pageWidth rt - margin) (snd st)
                       (Some (if isArabic then AlignLeft else AlignRight)) None) st;
          st = advance 5 st;
          st = emit (Text ((if isArabic then ar_DueDate else ''Due Date: '')
                             @ formatDate rt isArabic (dueDate invoice))
                       (if isArabic then margin else pageWidth rt - margin) (snd st)
                       (Some (if isArabic then AlignLeft else AlignRight)) None) st
      in advance 15 st)"

text \<open>Lines 122-143: the client block.\<close>

definition clientInformation ::
  "Runtime \<Rightarrow> Invoice \<Rightarrow> bool \<Rightarrow> Align \<Rightarrow> render \<Rightarrow> render" where
  "clientInformation rt invoice isArabic textAlign st =
     (let st = emit (SetFontSize 12) st;
          st = emit (Text (if isArabic then ar_BillTo else ''Bill To:'')
                       (if isArabic then pageWidth rt - margin else margin) (snd st)
                       (Some textAlign) None) st;
          st = advance 6 st;
          st = emit (SetFontSize 10) st;
          st = emit (Text (clientName invoice)
                       (if isArabic then pageWidth rt - margin else margin) (snd st)
                       (Some textAlign) None) st;
          st = advance 5 st;
          st = optionalLine (strOf (clientAddress invoice) \<noteq> []) (strOf (clientAddress invoice))
                 (if isArabic then pageWidth rt - margin else margin) textAlign st;
          st = optionalLine (clientEmail invoice \<noteq> [])
                 ((if isArabic then ar_Email else ''Email: '') @ clientEmail invoice)
                 (if isArabic then pageWidth rt - margin else margin) textAlign st
      in advance 10 st)"

text \<open>
  Lines 145-189: the item table. A call that throws propagates its error, so building
  the rows yields the rows or the first error.
\<close>

fun sequence :: "(error + 'a) list \<Rightarrow> error + 'a list" where
  "sequence [] = Inr []"
| "sequence (x # xs) =
     (case x of
        Inl e \<Rightarrow> Inl e
      | Inr v \<Rightarrow> (case sequence xs of Inl e \<Rightarrow> Inl e | Inr vs \<Rightarrow> Inr (v # vs)))"

definition tableRow :: "Runtime \<Rightarrow> string \<Rightarrow> string \<Rightarrow> InvoiceItem \<Rightarrow> error + Cell list" where
  "tableRow rt currencyCode currencySymbol item =
     (case formatCurrency rt (price item) currencyCode currencySymbol of
        Inl e \<Rightarrow> Inl e
      | Inr priceText \<Rightarrow>
          (case formatCurrency rt (or_else (total item) (quantity item * price item))
                  currencyCode currencySymbol of
             Inl e \<Rightarrow> Inl e
           | Inr totalText \<Rightarrow>
               Inr [CellString (description item), CellNumber (quantity item),
                    CellString priceText, CellString totalText]))"

definition tableRows :: "Runtime \<Rightarrow> string \<Rightarrow> string \<Rightarrow> InvoiceItem list \<Rightarrow> error + Cell list list" where
  "tableRows rt currencyCode currencySymbol its = sequence (map (tableRow rt currencyCode currencySymbol) its)"

definition tableOptions :: "bool \<Rightarrow> coord \<Rightarrow> Cell list list \<Rightarrow> AutoTableOptions" where
  "tableOptions isArabic yPos rows =
     \<lparr>startY = yPos,
      head = [[if isArabic then ar_Item else ''Item'',
               if isArabic then ar_Quantity else ''Quantity'',
               if isArabic then ar_Price else ''Price'',
               if isArabic then ar_Total else ''Total'']],
      body = rows,
      margin_left = margin,
      margin_right = margin,
      overflow = ''linebreak'',
      font = ''helvetica'',
      halign = (if isArabic then AlignRight else AlignLeft),
      headFillColor = (75, 85, 99),
      columnStyles =
        [\<lparr>cellWidth = None, column_halign = None\<rparr>,
         \<lparr>cellWidth = Some 20, column_halign = Some AlignCenter\<rparr>,
         \<lparr>cellWidth = Some 35, column_halign = Some AlignRight\<rparr>,
         \<lparr>cellWidth = Some 35, column_halign = Some AlignRight\<rparr>]\<rparr>"

definition itemsTable ::
  "Runtime \<Rightarrow> bool \<Rightarrow> Cell list list \<Rightarrow> render \<Rightarrow> render" where
  "itemsTable rt isArabic rows st =
     (let opts = tableOptions isArabic (snd st) rows;
          st = emit (AutoTable opts) st
      in case autoTable_finalY rt opts of
           Inl e \<Rightarrow>
             (let st = advance 10 st;
                  st = emit (Text ''Error generating table. Please check console for details.''
                               margin (snd st) None None) st;
                  st = advance 20 st
              in (fst st, snd st + 50))
         | Inr finalY \<Rightarrow>
             (fst st, if finalY + 10 \<noteq> 0 then finalY + 10 else snd st + 50))"

text \<open>Lines 191-239: the summary box.\<close>

definition summary ::
  "Runtime \<Rightarrow> Invoice \<Rightarrow> bool \<Rightarrow> string \<Rightarrow> string \<Rightarrow> render \<Rightarrow> error + render" where
  "summary rt invoice isArabic currencyCode currencySymbol st =
     (let yPos = snd st;
          summaryX = (if isArabic then margin else pageWidth rt - margin - 70);
          summaryWidth = 70;
          st = emit (SetFillColor 240 240 240) st;
          st = emit (Rect summaryX yPos summaryWidth (15 * 3) ''F'') st;
          st = emit (Text (if isArabic then ar_SubtotalColon else ''Subtotal:'')
                       (if isArabic then summaryX + summaryWidth - 5 else summaryX + 5) (yPos + 10)
                       (Some (if isArabic then AlignRight else AlignLeft)) None) st
      in case formatCurrency rt (subtotal invoice) currencyCode currencySymbol of
           Inl e \<Rightarrow> Inl e
         | Inr subtotalText \<Rightarrow>
      (let st = emit (Text subtotalText
                       (if isArabic then summaryX + 5 else summaryX + summaryWidth - 5) (yPos + 10)
                       (Some (if isArabic then AlignLeft else AlignRight)) None) st;
           st = emit (Text ((if isArabic then ar_Tax else ''Tax'') @ '' (''
                              @ numberToString rt (taxRate invoice) @ ''%):'')
                       (if isArabic then summaryX + summaryWidth - 5 else summaryX + 5) (yPos + 20)
                       (Some (if isArabic then AlignRight else AlignLeft)) None) st
       in case formatCurrency rt (tax invoice) currencyCode currencySymbol of
            Inl e \<Rightarrow> Inl e
          | Inr taxText \<Rightarrow>
      (let st = emit (Text taxText
                       (if isArabic then summaryX + 5 else summaryX + summaryWidth - 5) (yPos + 20)
                       (Some (if isArabic then AlignLeft else AlignRight)) None) st;
           st = emit (SetFontSize 12) st;
           st = emit (Text (if isArabic then ar_TotalColon else ''Total:'')
                       (if isArabic then summaryX + summaryWidth - 5 else summaryX + 5) (yPos + 30)
                       (Some (if isArabic then AlignRight else AlignLeft)) None) st
       in case formatCurrency rt (totalAmount invoice) currencyCode currencySymbol of
            Inl e \<Rightarrow> Inl e
          | Inr totalText \<Rightarrow>
      (let st = emit (Text totalText
                       (if isArabic then summaryX + 5 else summaryX + summaryWidth - 5) (yPos + 30)
                       (Some (if isArabic then AlignLeft else AlignRight)) None) st
       in Inr (advance 45 st)))))"

text \<open>Lines 241-269: the notes and the terms and conditions.\<close>

definition notesBlock ::
  "Runtime \<Rightarrow> Invoice \<Rightarrow> bool \<Rightarrow> Align \<Rightarrow> render \<Rightarrow> render" where
  "notesBlock rt invoice isArabic textAlign st =
     (if strOf (notes_inv invoice) \<noteq> []
      then
        (let st = emit (SetFontSize 10) st;
             st = emit (Text (if isArabic then ar_Notes else ''Notes:'')
                          (if isArabic then pageWidth rt - margin else margin) (snd st)
                          (Some textAlign) None) st;
             st = advance 5 st;
             st = emit (Text (strOf (notes_inv invoice))
                          (if isArabic then pageWidth rt - margin else margin) (snd st)
                          (Some textAlign) (Some (pageWidth rt - margin * 2))) st;
             textLines = splitTextToSize rt (strOf (notes_inv invoice)) (pageWidth rt - margin * 2)
         in advance (of_nat (length textLines) * 5 + 10) st)
      else st)"

definition termsBlock ::
  "Runtime \<Rightarrow> CompanySettings option \<Rightarrow> bool \<Rightarrow> Align \<Rightarrow> render \<Rightarrow> render" where
  "termsBlock rt settings isArabic textAlign st =
     (if setting termsAndConditions settings \<noteq> []
      then
        (let st = emit (SetFontSize 10) st;
             st = emit (Text (if isArabic then ar_Terms else ''Terms and Conditions:'')
                          (if isArabic then pageWidth rt - margin else margin) (snd st)
                          (Some textAlign) None) st;
             st = advance 5 st
         in emit (Text (setting termsAndConditions settings)
                    (if isArabic then pageWidth rt - margin else margin) (snd st)
                    (Some textAlign) (Some (pageWidth rt - margin * 2))) st)
      else st)"

text \<open>Lines 271-281: the footer with the generation time, and the saved file.\<close>

definition footerText :: "Runtime \<Rightarrow> bool \<Rightarrow> string" where
  "footerText rt isArabic =
     (if isArabic then ar_GeneratedOn @ toLocaleString rt (Some ''ar-SA'') (now rt)
      else ''Generated on '' @ toLocaleString rt None (now rt))"

definition footer :: "Runtime \<Rightarrow> bool \<Rightarrow> render \<Rightarrow> render" where
  "footer rt isArabic st =
     (let st = emit (SetFontSize 8) st
      in emit (Text (footerText rt isArabic) (pageWidth rt / 2) (pageHeight rt - 10)
                 (Some AlignCenter) None) st)"

definition fileName :: "Invoice \<Rightarrow> bool \<Rightarrow> string" where
  "fileName invoice isArabic =
     ''Invoice-'' @ invoiceNumber invoice @ ''-'' @ (if isArabic then ''AR'' else ''EN'') @ ''.pdf''"

text \<open>
  \<^verbatim>\<open>generatePdf(invoice, settings)\<close>: the calls made on the document, or the error that
  escapes. \<open>beforeFooter\<close> is the function up to line 269, \<open>generatePdf\<close> adds the
  footer and saves the file.
\<close>

definition beforeFooter ::
  "Runtime \<Rightarrow> Invoice \<Rightarrow> CompanySettings option \<Rightarrow> error + render" where
  "beforeFooter rt invoice settings =
     (let st = ([], margin);
          isArabic = (setting language settings = ''ar'');
          textAlign = (if isArabic then AlignRight else AlignLeft);
          st = header rt settings st;
          st = companyDetails rt settings isArabic textAlign st;
          st = invoiceDetails rt invoice isArabic st;
          st = clientInformation rt invoice isArabic textAlign st;
          currency = str_or_else (setting currency settings) ''USD'';
          currencySymbol = getCurrencySymbol currency
      in case tableRows rt currency currencySymbol (items invoice) of
           Inl e \<Rightarrow> Inl e
         | Inr rows \<Rightarrow>
             (let st = itemsTable rt isArabic rows st
              in case summary rt invoice isArabic currency currencySymbol st of
                   Inl e \<Rightarrow> Inl e
                 | Inr st \<Rightarrow>
                     (let st = notesBlock rt invoice isArabic textAlign st;
                          st = termsBlock rt settings isArabic textAlign st
                      in Inr st)))"

definition generatePdf ::
  "Runtime \<Rightarrow> Invoice \<Rightarrow> CompanySettings option \<Rightarrow> error + Instr list" where
  "generatePdf rt invoice settings =
     (let isArabic = (setting language settings = ''ar'')
      in case beforeFooter rt invoice settings of
           Inl e \<Rightarrow> Inl e
         | Inr st \<Rightarrow>
             (let st = footer rt isArabic st;
                  st = emit (Save (fileName invoice isArabic)) st
              in Inr (fst st)))"

section \<open>The two-decimal rendering, stated directly\<close>

text \<open>
  What the specification asks of the formatter, written out without reference to
  \<open>toFixed\<close>: the exact value of a finite amount in hundredths, rounded to the
  nearest (half up on the magnitude), as sign, integer part, point and exactly two digits.
\<close>

definition hundredths :: "rat \<Rightarrow> nat" where
  "hundredths x = nat \<lfloor>\<bar>x\<bar> * 100 + 1 / 2\<rfloor>"

definition twoDecimals :: "rat \<Rightarrow> string" where
  "twoDecimals x =
     (if x < 0 then ''-'' else []) @ showNat (hundredths x div 100) @ ''.'' @
     [digitChar (hundredths x div 10 mod 10), digitChar (hundredths x mod 10)]"

section \<open>Example inputs\<close>

text \<open>
  Concrete inputs for the examples below. The example runtime is an A4 page in
  millimetres, a number conversion that agrees with the platform on the integers up to
  \<open>10^21\<close>, and the \<^verbatim>\<open>en-US\<close> renderings in the UTC time zone of the first two seconds
  of the epoch; the examples use nothing else of it.
\<close>

definition exampleNumberToString :: "double \<Rightarrow> string" where
  "exampleNumberToString d =
     (case d of
        Finite x \<Rightarrow> if x = 10 ^ 21 then ''1e+21'' else intToString \<lfloor>x\<rfloor>
      | Infinity \<Rightarrow> ''Infinity''
      | NegInfinity \<Rightarrow> ''-Infinity''
      | NaN \<Rightarrow> ''NaN'')"

definition exampleToLocaleString :: "string option \<Rightarrow> int \<Rightarrow> string" where
  "exampleToLocaleString locale t =
     (if 0 \<le> t \<and> t < 1000 then ''1/1/1970, 12:00:00 AM''
      else if 1000 \<le> t \<and> t < 2000 then ''1/1/1970, 12:00:01 AM''
      else intToString t)"

definition exampleToLocaleDateString :: "string \<Rightarrow> int \<Rightarrow> string" where
  "exampleToLocaleDateString locale t =
     (if 0 \<le> t \<and> t < 86400000 then ''1/1/1970'' else intToString t)"

definition exampleRuntime :: Runtime where
  "exampleRuntime =
     \<lparr>numberToString = exampleNumberToString,
      toLocaleDateString = exampleToLocaleDateString,
      toLocaleString = exampleToLocaleString,
      now = 0,
      pageWidth = 210,
      pageHeight = 297,
      addImage_throws = (\<lambda>url. False),
      autoTable_finalY = (\<lambda>opts. Inr (startY opts + 10 * (1 + of_nat (length (body opts))))),
      splitTextToSize = (\<lambda>text width. [text])\<rparr>"

definition exampleItem :: InvoiceItem where
  "exampleItem =
     \<lparr>item_id = ''item-1'', description = ''Widget'', quantity = Finite 2, price = Finite 50,
      total = Finite 100\<rparr>"

definition staleItem :: InvoiceItem where
  "staleItem = exampleItem\<lparr>total := Finite 0\<rparr>"

definition exampleInvoice :: Invoice where
  "exampleInvoice =
     \<lparr>subtotal = Finite 100, tax = Finite 10, totalAmount = Finite 110,
      invoiceNumber = ''INV-0042'', date = DateInput (Date 0), dueDate = Absent,
      clientName = ''Client'', clientEmail = ''client@example.com'', clientAddress = None,
      status = draft, items = [exampleItem], taxRate = Finite 10, notes_inv = None, terms = None\<rparr>"

definition emptySettings :: CompanySettings where
  "emptySettings =
     \<lparr>companyName = None, address = None, email = None, phone = None, website = None,
      taxNumber = None, logoUrl = None, termsAndConditions = None, currency = None,
      language = None, nextInvoiceNumber = None\<rparr>"

definition exampleSettings :: CompanySettings where
  "exampleSettings =
     emptySettings\<lparr>companyName := Some ''Acme'', address := Some ''1 Main Street'',
       currency := Some ''USD'', language := Some ''en'', nextInvoiceNumber := Some 1001\<rparr>"

definition emptyFirestore :: Firestore where
  "emptyFirestore =
     \<lparr>settingsDocs = [], invoiceDocs = [], settingsUnreachable = False,
      invoicesUnreachable = False\<rparr>"

section \<open>The identifier format, stated directly\<close>


fun numDigits :: "nat \<Rightarrow> nat" where
  "numDigits n = (if n < 10 then 1 else Suc (numDigits (n div 10)))"

declare numDigits.simps [simp del]



section \<open>Properties of the arithmetic of doubles\<close>

lemma pow2_pos [simp]: "0 < pow2 e"
  by (simp add: pow2_def)

lemma pow2_nonzero [simp]: "pow2 e \<noteq> 0"
  by (simp add: pow2_def)

lemma pow2_less: "e1 < e2 \<Longrightarrow> pow2 e1 < pow2 e2"
  by (simp add: pow2_def power_int_strict_increasing)

lemma pow2_le: "e1 \<le> e2 \<Longrightarrow> pow2 e1 \<le> pow2 e2"
  by (simp add: pow2_def power_int_increasing)

lemma pow2_add: "pow2 (a + b) = pow2 a * pow2 b"
  by (simp add: pow2_def power_int_add)

lemma pow2_0 [simp]: "pow2 0 = 1"
  by (simp add: pow2_def)

lemma pow2_nat: "0 \<le> e \<Longrightarrow> pow2 e = 2 ^ nat e"
  by (simp add: pow2_def power_int_def)

lemma exponentBelow_range: "- 1022 \<le> exponentBelow k a \<and> exponentBelow k a \<le> int k - 1022"
  by (induction k) auto

lemma exponentBelow_lower: "exponentBelow k a = - 1022 \<or> pow2 (exponentBelow k a) \<le> a"
  by (induction k) auto

lemma exponentBelow_upper:
  "exponentBelow k a = int k - 1022 \<or> a < pow2 (exponentBelow k a + 1)"
proof (induction k)
  case 0
  show ?case by simp
next
  case (Suc k)
  show ?case
  proof (cases "pow2 (int (Suc k) - 1022) \<le> a")
    case True
    then show ?thesis by simp
  next
    case False
    then have lt: "a < pow2 (int k - 1022 + 1)" by (simp add: add.commute)
    from Suc show ?thesis
    proof
      assume "exponentBelow k a = int k - 1022"
      with False lt show ?thesis by simp
    next
      assume "a < pow2 (exponentBelow k a + 1)"
      with False show ?thesis by simp
    qed
  qed
qed

lemma exponentBelow_eq:
  assumes "e = - 1022 \<or> pow2 e \<le> a" and "e = int k - 1022 \<or> a < pow2 (e + 1)"
    and "- 1022 \<le> e" and "e \<le> int k - 1022"
  shows "exponentBelow k a = e"
proof -
  let ?f = "exponentBelow k a"
  have r: "- 1022 \<le> ?f" "?f \<le> int k - 1022" using exponentBelow_range by auto
  have "\<not> ?f < e"
  proof
    assume lt: "?f < e"
    then have "e \<noteq> - 1022" using r by simp
    then have "pow2 e \<le> a" using assms(1) by simp
    moreover have "?f \<noteq> int k - 1022" using lt assms(4) by simp
    then have "a < pow2 (?f + 1)" using exponentBelow_upper [of k a] by simp
    moreover have "pow2 (?f + 1) \<le> pow2 e" using lt by (intro pow2_le) simp
    ultimately show False by simp
  qed
  moreover have "\<not> e < ?f"
  proof
    assume lt: "e < ?f"
    then have "?f \<noteq> - 1022" using assms(3) by simp
    then have "pow2 ?f \<le> a" using exponentBelow_lower [of k a] by simp
    moreover have "pow2 (e + 1) \<le> pow2 ?f" using lt by (intro pow2_le) simp
    moreover have "e \<noteq> int k - 1022" using lt r by simp
    then have "a < pow2 (e + 1)" using assms(2) by simp
    ultimately show False by simp
  qed
  ultimately show ?thesis by simp
qed

lemma exponentOf_eq:
  assumes "e = - 1022 \<or> pow2 e \<le> a" and "e = 1023 \<or> a < pow2 (e + 1)"
    and "- 1022 \<le> e" and "e \<le> 1023"
  shows "exponentOf a = e"
  unfolding exponentOf_def using assms by (intro exponentBelow_eq) simp_all

lemma roundHalfEven_of_int [simp]: "roundHalfEven (of_int k) = k"
  by (simp add: roundHalfEven_def)


lemma roundHalfEven_ge: "x - 1 / 2 \<le> of_int (roundHalfEven x)"
  unfolding roundHalfEven_def Let_def by (auto; linarith)

text \<open>Rounding at a known exponent.\<close>

lemma roundToDouble_at:
  assumes "x \<noteq> 0" and "e = - 1022 \<or> pow2 e \<le> \<bar>x\<bar>"
    and "e = 1023 \<or> \<bar>x\<bar> < pow2 (e + 1)"
    and "- 1022 \<le> e" and "e \<le> 1023"
  shows "roundToDouble x =
    (let r = of_int (roundHalfEven (\<bar>x\<bar> / pow2 (e - 52))) * pow2 (e - 52)
     in if pow2 1024 \<le> r then (if x < 0 then NegInfinity else Infinity)
        else Finite (if x < 0 then - r else r))"
proof -
  have e: "exponentOf \<bar>x\<bar> = e"
    using assms(2-5) by (rule exponentOf_eq)
  show ?thesis
    unfolding roundToDouble_def Let_def e using assms(1) by (simp only: if_False)
qed


lemma exponentOf_lower: "exponentOf a = - 1022 \<or> pow2 (exponentOf a) \<le> a"
  unfolding exponentOf_def by (rule exponentBelow_lower)

lemma exponentOf_upper: "exponentOf a = 1023 \<or> a < pow2 (exponentOf a + 1)"
  unfolding exponentOf_def using exponentBelow_upper [of 2045 a] by simp

lemma pow2_53: "pow2 53 = 9007199254740992"
  by (simp add: pow2_def)

text \<open>An integer of magnitude below \<open>2^53\<close> is a double: rounding leaves it as it is.\<close>

lemma roundToDouble_of_int:
  assumes "\<bar>n\<bar> < 9007199254740992"
  shows "roundToDouble (of_int n) = Finite (of_int n)"
proof (cases "n = 0")
  case True
  then show ?thesis by (simp add: roundToDouble_def)
next
  case False
  define a :: rat where "a = \<bar>of_int n\<bar>"
  define e where "e = exponentOf a"
  have a: "a = of_int \<bar>n\<bar>" by (simp add: a_def)
  have a1: "1 \<le> a" using False unfolding a by (simp add: int_one_le_iff_zero_less)
  have "(of_int \<bar>n\<bar> :: rat) < of_int 9007199254740992"
    using assms by (simp only: of_int_less_iff)
  then have a53: "a < pow2 53"
    unfolding a pow2_53 by simp
  have e0: "0 \<le> e"
  proof (rule ccontr)
    assume "\<not> 0 \<le> e"
    then have lt: "e + 1 \<le> 0" by simp
    then have "e \<noteq> 1023" by simp
    then have "a < pow2 (e + 1)" using exponentOf_upper [of a] by (simp add: e_def)
    also have "\<dots> \<le> pow2 0" using lt by (rule pow2_le)
    finally show False using a1 by simp
  qed
  have e52: "e \<le> 52"
  proof (rule ccontr)
    assume "\<not> e \<le> 52"
    then have ge: "53 \<le> e" by simp
    then have "e \<noteq> - 1022" by simp
    then have "pow2 e \<le> a" using exponentOf_lower [of a] by (simp add: e_def)
    moreover have "pow2 53 \<le> pow2 e" using ge by (rule pow2_le)
    ultimately show False using a53 by simp
  qed
  define s where "s = nat (52 - e)"
  have "pow2 (e - 52) * pow2 (52 - e) = 1"
    by (simp flip: pow2_add)
  moreover have "pow2 (52 - e) = 2 ^ s"
    using e52 by (simp add: pow2_nat s_def)
  ultimately have u: "pow2 (e - 52) * 2 ^ s = 1" by simp
  have inv: "1 / pow2 (e - 52) = 2 ^ s"
    using u by (simp add: divide_eq_eq mult.commute)
  have "a / pow2 (e - 52) = a * (1 / pow2 (e - 52))"
    by simp
  then have q: "a / pow2 (e - 52) = of_int (\<bar>n\<bar> * 2 ^ s)"
    unfolding inv a by simp
  have r: "of_int (roundHalfEven (a / pow2 (e - 52))) * pow2 (e - 52) = a"
    unfolding q roundHalfEven_of_int using u unfolding a by (simp add: mult.assoc mult.commute)
  have "a < pow2 1024"
    using a53 pow2_less [of 53 1024] by simp
  then have "\<not> pow2 1024 \<le> a" by simp
  moreover have "(if of_int n < (0::rat) then - a else a) = of_int n"
    unfolding a_def by simp
  ultimately show ?thesis
    using False unfolding roundToDouble_def Let_def a_def [symmetric] e_def [symmetric] r
    by simp
qed

lemma roundToDouble_numeral [simp]:
  "numeral k < (9007199254740992 :: int) \<Longrightarrow> roundToDouble (numeral k) = Finite (numeral k)"
  using roundToDouble_of_int [of "numeral k"] by simp




lemma zero_times_finite [simp]: "0 * Finite q = (0 :: double)"
  by (simp add: zero_double_def times_double_def roundToDouble_def)

lemma zero_times_zero [simp]: "0 * (0 :: double) = 0"
  by (simp add: zero_double_def times_double_def roundToDouble_def)

lemma zero_plus_zero [simp]: "0 + (0 :: double) = 0"
  by (simp add: zero_double_def plus_double_def roundToDouble_def)

lemma zero_divide_100 [simp]: "(0 :: double) / Finite 100 = 0"
  by (simp add: zero_double_def divide_double_def roundToDouble_def)

lemma or_else_zero [simp]: "or_else 0 0 = 0"
  by (simp add: or_else_def)

lemma foldl_calculator:
  "foldl (\<lambda>sum item. sum + or_else (total item) 0) a its =
   foldl (+) a (map (\<lambda>item. or_else (total item) 0) its)"
  by (induction its arbitrary: a) simp_all

lemma subtotal_calculateInvoiceTotals:
  "subtotal (calculateInvoiceTotals its r) = sumLeft (map (\<lambda>item. or_else (total item) 0) its)"
  by (simp add: calculateInvoiceTotals_def Let_def foldl_calculator sumLeft_def)

lemma roundToDouble_zero [simp]: "roundToDouble 0 = Finite 0"
  by (simp add: roundToDouble_def)

lemma two_times_fifty: "Finite 2 * Finite 50 = Finite 100"
  by (simp add: times_double_def)

lemma floor_numeral_div: "\<lfloor>(numeral a :: rat) / numeral b\<rfloor> = numeral a div numeral b"
  by (metis floor_divide_of_int_eq of_int_numeral)

lemma seven_hundredths:
  "Finite 7 / Finite 100 = Finite (1261007895663739 / 18014398509481984)"
proof -
  have "roundToDouble (7 / 100) = Finite (1261007895663739 / 18014398509481984)"
    by (subst roundToDouble_at [where e = "- 4"])
      (simp_all add: pow2_def roundHalfEven_def floor_numeral_div Let_def)
  then show ?thesis by (simp add: divide_double_def)
qed

lemma hundred_times_seven_hundredths:
  "Finite 100 * Finite (1261007895663739 / 18014398509481984) =
   Finite (7881299347898369 / 1125899906842624)"
proof -
  have "roundToDouble (100 * (1261007895663739 / 18014398509481984)) =
      Finite (7881299347898369 / 1125899906842624)"
    by (subst roundToDouble_at [where e = 2])
      (simp_all add: pow2_def roundHalfEven_def floor_numeral_div Let_def)
  then show ?thesis by (simp add: times_double_def)
qed

lemma hundred_plus_tax:
  "Finite 100 + Finite (7881299347898369 / 1125899906842624) = Finite 107"
proof -
  have "roundToDouble (100 + 7881299347898369 / 1125899906842624) = Finite 107"
    by (subst roundToDouble_at [where e = 6])
      (simp_all add: pow2_def roundHalfEven_def floor_numeral_div Let_def)
  then show ?thesis by (simp add: plus_double_def)
qed

lemma zero_plus_numeral:
  "numeral k < (9007199254740992 :: int) \<Longrightarrow> 0 + Finite (numeral k) = Finite (numeral k)"
  by (simp add: zero_double_def plus_double_def)

section \<open>Properties of the totals calculator\<close>

lemma map_total_updatedItems:
  "map total (updatedItems its) = map (\<lambda>item. quantity item * price item) its"
  by (simp add: updatedItems_def)

lemma itemsNeedUpdate_False:
  assumes "\<not> itemsNeedUpdate upd watched" and "length upd = length watched"
  shows "map total watched = map total upd"
proof (rule nth_equalityI)
  show "length (map total watched) = length (map total upd)"
    using assms(2) by simp
next
  fix i
  assume "i < length (map total watched)"
  then have i: "i < length upd"
    using assms(2) by simp
  then have "(upd ! i, i) \<in> set (zip upd [0..<length upd])"
    by (auto simp: in_set_zip)
  with assms(1) have "total (upd ! i) = total (watched ! i)"
    by (auto simp: itemsNeedUpdate_def list_ex_iff strictNotEqual_def)
  with i assms(2) show "map total watched ! i = map total upd ! i"
    by simp
qed

lemma or_else_not_NaN: "x \<noteq> NaN \<Longrightarrow> or_else x 0 = x"
  by (simp add: or_else_def truthy_def zero_double_def)

text \<open>
  C1, as the code has it. The calculator adds up the stored \<^verbatim>\<open>total\<close> fields, a falsy
  one counted as 0, and never reads quantity or price; the line totals are recomputed by
  the page effect that calls it. On a non-empty item list the effect obtains a subtotal
  equal to the sum of quantity times price (a product that is NaN counted as 0),
  whatever the stored totals were, and leaves the form's items with recomputed line
  totals. Sums and products are those of doubles, the sums taken from the left.
\<close>

theorem subtotal_recomputed_by_page_effect:
  "subtotal (calculateInvoiceTotals its r) =
     sumLeft (map (\<lambda>item. or_else (total item) 0) its) \<and>
   (its \<noteq> [] \<longrightarrow>
      (\<exists>totals its'. totalsEffect its r = Some (totals, its') \<and>
         subtotal totals =
           sumLeft (map (\<lambda>item. or_else (quantity item * price item) 0) its) \<and>
         ((\<forall>item \<in> set its. quantity item * price item \<noteq> NaN) \<longrightarrow>
            subtotal totals = sumLeft (map (\<lambda>item. quantity item * price item) its)) \<and>
         map total its' = map (\<lambda>item. quantity item * price item) its))"
proof (intro conjI impI)
  show "subtotal (calculateInvoiceTotals its r) =
     sumLeft (map (\<lambda>item. or_else (total item) 0) its)"
    by (rule subtotal_calculateInvoiceTotals)
next
  assume ne: "its \<noteq> []"
  let ?upd = "updatedItems its"
  let ?its' = "if itemsNeedUpdate ?upd its then ?upd else its"
  have eff: "totalsEffect its r = Some (calculateInvoiceTotals ?upd r, ?its')"
    using ne by (simp add: totalsEffect_def Let_def)
  have "map (\<lambda>item. or_else (total item) 0) ?upd =
      map (\<lambda>t. or_else t 0) (map total ?upd)"
    by simp
  also have "\<dots> = map (\<lambda>item. or_else (quantity item * price item) 0) its"
    unfolding map_total_updatedItems by simp
  finally have sub: "subtotal (calculateInvoiceTotals ?upd r) =
      sumLeft (map (\<lambda>item. or_else (quantity item * price item) 0) its)"
    by (simp only: subtotal_calculateInvoiceTotals)
  have sub': "subtotal (calculateInvoiceTotals ?upd r) =
      sumLeft (map (\<lambda>item. quantity item * price item) its)"
    if "\<forall>item \<in> set its. quantity item * price item \<noteq> NaN"
  proof -
    have "map (\<lambda>item. or_else (quantity item * price item) 0) its =
        map (\<lambda>item. quantity item * price item) its"
      using that by (simp add: or_else_not_NaN)
    then show ?thesis
      by (simp only: sub)
  qed
  have len: "length ?upd = length its"
    by (simp add: updatedItems_def)
  have "map total ?its' = map total ?upd"
    using itemsNeedUpdate_False [OF _ len] by auto
  then have tot: "map total ?its' = map (\<lambda>item. quantity item * price item) its"
    by (simp only: map_total_updatedItems)
  from eff sub sub' tot
  show "\<exists>totals its'. totalsEffect its r = Some (totals, its') \<and>
         subtotal totals =
           sumLeft (map (\<lambda>item. or_else (quantity item * price item) 0) its) \<and>
         ((\<forall>item \<in> set its. quantity item * price item \<noteq> NaN) \<longrightarrow>
            subtotal totals = sumLeft (map (\<lambda>item. quantity item * price item) its)) \<and>
         map total its' = map (\<lambda>item. quantity item * price item) its"
    by blast
qed

theorem subtotal_recomputed_by_page_effect_witness:
  "[staleItem] \<noteq> [] \<and>
   (\<exists>totals its'. totalsEffect [staleItem] (Some (Finite 10)) = Some (totals, its') \<and>
      subtotal totals = Finite 100 \<and> map total its' = [Finite 100])"
  using subtotal_recomputed_by_page_effect [of "[staleItem]" "Some (Finite 10)"]
  by (simp add: staleItem_def exampleItem_def two_times_fifty sumLeft_def zero_plus_numeral
      or_else_def truthy_def)

text \<open>
  C1, as stated, fails: on one item with quantity 2, price 50 and a stale stored total
  of 0 the calculator's subtotal is 0, not 100.
\<close>

theorem calculator_trusts_stale_total_counterexample:
  "subtotal (calculateInvoiceTotals [staleItem] (Some (Finite 10))) \<noteq>
     sumLeft (map (\<lambda>item. quantity item * price item) [staleItem])"
  by (simp add: subtotal_calculateInvoiceTotals staleItem_def exampleItem_def two_times_fifty
      sumLeft_def or_else_def truthy_def zero_double_def plus_double_def)



text \<open>
  Each operation rounds: on one line total of 100 and a rate of 7 the tax is the double
  next above 7, printed \<^verbatim>\<open>7.000000000000001\<close>, and the total amount is 107.
\<close>

lemma rounding_example:
  "calculateInvoiceTotals [exampleItem] (Some (Finite 7)) =
     \<lparr>subtotal = Finite 100, tax = Finite (7881299347898369 / 1125899906842624),
      totalAmount = Finite 107\<rparr> \<and>
   Finite (7881299347898369 / 1125899906842624) \<noteq> Finite 7"
  by (simp add: calculateInvoiceTotals_def Let_def exampleItem_def or_else_def truthy_def
      zero_plus_numeral seven_hundredths hundred_times_seven_hundredths hundred_plus_tax)

text \<open>With the rate left out the tax is 0 and the total amount is the subtotal.\<close>

lemma omitted_rate_example:
  "calculateInvoiceTotals [exampleItem] None =
     \<lparr>subtotal = Finite 100, tax = Finite 0, totalAmount = Finite 100\<rparr>"
  by (simp add: calculateInvoiceTotals_def Let_def exampleItem_def or_else_def truthy_def
      zero_plus_numeral zero_double_def plus_double_def times_double_def divide_double_def)

text \<open>A sum beyond the largest double overflows to infinity, and the tax is then NaN.\<close>

lemma overflow_general:
  assumes "roundToDouble x = Finite x" and "roundToDouble (x + x) = Infinity" and "x \<noteq> 0"
  shows "calculateInvoiceTotals
     [exampleItem\<lparr>total := Finite x\<rparr>, exampleItem\<lparr>total := Finite x\<rparr>] (Some (Finite 0)) =
   \<lparr>subtotal = Infinity, tax = NaN, totalAmount = NaN\<rparr>"
  using assms
  by (simp add: calculateInvoiceTotals_def Let_def exampleItem_def or_else_def truthy_def
      zero_double_def plus_double_def times_double_def divide_double_def)

lemma overflow_example:
  "calculateInvoiceTotals
     [exampleItem\<lparr>total := Finite (2 ^ 1023)\<rparr>, exampleItem\<lparr>total := Finite (2 ^ 1023)\<rparr>]
     (Some (Finite 0)) =
   \<lparr>subtotal = Infinity, tax = NaN, totalAmount = NaN\<rparr>"
proof (rule overflow_general)
  show "roundToDouble (2 ^ 1023) = Finite (2 ^ 1023)"
    by (subst roundToDouble_at [where e = 1023])
      (simp_all add: pow2_def roundHalfEven_def Let_def)
  show "roundToDouble (2 ^ 1023 + 2 ^ 1023) = Infinity"
    by (subst roundToDouble_at [where e = 1023])
      (simp_all add: pow2_def roundHalfEven_def Let_def)
  show "(2 :: rat) ^ 1023 \<noteq> 0"
    by simp
qed

text \<open>
  C10. The result of the calculator depends on the items only through their stored
  \<^verbatim>\<open>total\<close> fields: two item lists of equal length whose totals agree position by
  position give the same subtotal, tax and total amount under the same tax rate, whatever
  their identifiers, descriptions, quantities and prices; and the subtotal is the sum of
  the stored totals with a falsy total counted as 0.
\<close>

theorem calculateInvoiceTotals_depends_on_stored_totals_only:
  assumes len: "length xs = length ys"
    and tot: "\<forall>i < length xs. total (xs ! i) = total (ys ! i)"
  shows "calculateInvoiceTotals xs r = calculateInvoiceTotals ys r \<and>
    subtotal (calculateInvoiceTotals xs r) =
      sumLeft (map (\<lambda>item. or_else (total item) 0) xs)"
proof
  have "map total xs = map total ys"
    using len tot by (intro nth_equalityI) simp_all
  then have "map (\<lambda>t. or_else t 0) (map total xs) = map (\<lambda>t. or_else t 0) (map total ys)"
    by simp
  then have "map (\<lambda>item. or_else (total item) 0) xs = map (\<lambda>item. or_else (total item) 0) ys"
    by (simp add: comp_def)
  then show "calculateInvoiceTotals xs r = calculateInvoiceTotals ys r"
    by (simp add: calculateInvoiceTotals_def Let_def foldl_calculator)
next
  show "subtotal (calculateInvoiceTotals xs r) =
      sumLeft (map (\<lambda>item. or_else (total item) 0) xs)"
    by (rule subtotal_calculateInvoiceTotals)
qed

theorem calculateInvoiceTotals_depends_on_stored_totals_only_witness:
  "length [exampleItem] =
     length [exampleItem\<lparr>item_id := ''item-2'', description := ''Gadget'', quantity := Finite 7,
               price := Finite 3\<rparr>] \<and>
   calculateInvoiceTotals [exampleItem] (Some (Finite 10)) =
     calculateInvoiceTotals
       [exampleItem\<lparr>item_id := ''item-2'', description := ''Gadget'', quantity := Finite 7,
          price := Finite 3\<rparr>] (Some (Finite 10))"
  using calculateInvoiceTotals_depends_on_stored_totals_only
    [of "[exampleItem]"
        "[exampleItem\<lparr>item_id := ''item-2'', description := ''Gadget'', quantity := Finite 7,
            price := Finite 3\<rparr>]" "Some (Finite 10)"]
  by (simp add: exampleItem_def)

section \<open>Properties of the invoice number allocator\<close>

lemma sorted_le_last: "sorted xs \<Longrightarrow> x \<in> set xs \<Longrightarrow> x \<le> last xs"
  by (induction xs) auto

lemma last_sorted_is_greatest:
  assumes "docs \<noteq> []"
  shows "\<exists>d rest. rev (sort_key f docs) = d # rest \<and> d \<in> set docs \<and>
    (\<forall>j \<in> set docs. f j \<le> f d)"
proof -
  let ?ys = "sort_key f docs"
  have ne: "?ys \<noteq> []"
    using assms by (metis length_sort length_0_conv)
  have srt: "sorted (map f ?ys)"
    by (rule sorted_sort_key)
  have "rev ?ys = rev (butlast ?ys @ [last ?ys])"
    using ne by simp
  then have "rev ?ys = last ?ys # rev (butlast ?ys)"
    by (simp only: rev_append rev.simps append_Nil append_Cons)
  moreover have "last ?ys \<in> set docs"
    using ne by (metis last_in_set set_sort)
  moreover have "\<forall>j \<in> set docs. f j \<le> f (last ?ys)"
  proof
    fix j
    assume "j \<in> set docs"
    then have "f j \<in> set (map f ?ys)"
      by simp
    moreover have "last (map f ?ys) = f (last ?ys)"
      using ne by (simp add: last_map)
    ultimately show "f j \<le> f (last ?ys)"
      using srt by (metis sorted_le_last)
  qed
  ultimately show ?thesis
    by blast
qed

text \<open>The query returns a document that carries the greatest invoice number.\<close>

lemma getDocs_lastInvoice_highest:
  assumes "\<not> invoicesUnreachable db" and "d \<in> set (invoiceDocs db)"
    and "invoiceNumber d = k" and "\<forall>j \<in> set (invoiceDocs db). invoiceNumber j \<le> k"
  shows "\<exists>d'. getDocs_lastInvoice db = Inr [d'] \<and> invoiceNumber d' = k"
proof -
  have "invoiceDocs db \<noteq> []"
    using assms(2) by auto
  from last_sorted_is_greatest [OF this, of invoiceNumber]
  obtain d' rest where r: "rev (sort_key invoiceNumber (invoiceDocs db)) = d' # rest"
    and d': "d' \<in> set (invoiceDocs db)"
    and mx: "\<forall>j \<in> set (invoiceDocs db). invoiceNumber j \<le> invoiceNumber d'"
    by blast
  have "invoiceNumber d' = k"
    using assms(2,3,4) d' mx by (metis order_antisym)
  then show ?thesis
    using assms(1) r by (simp add: getDocs_lastInvoice_def)
qed

text \<open>Unfolding these evaluates the string functions on literals.\<close>

lemma replicate_numeral: "replicate (numeral k) x = x # replicate (pred_numeral k) x"
  by (simp add: numeral_eq_Suc)

lemmas string_eval =
  parseInt_def whiteSpaceSeqs_def isDigit_def digitsValue_def digitValue_def
  formatInvoiceNumber_def intToString_def padStart_def digitChar_def startsWith_def
  replicate_numeral showNat.simps

lemma fromLastInvoice_9999:
  "invoiceNumber d = ''INV-9999'' \<Longrightarrow> fromLastInvoice [d] = Some ''INV-10000''"
  by (simp add: fromLastInvoice_def string_eval)

lemma formatInvoiceNumber_1001: "formatInvoiceNumber 1001 = ''INV-1001''"
  by (simp add: string_eval)













lemma numDigits_pos: "0 < numDigits n"
  by (simp add: numDigits.simps [of n])























text \<open>
  C7. A settings lookup that throws, and an invoice lookup that throws once the settings
  have yielded no counter, both raise inside the \<^verbatim>\<open>try\<close> block, and the allocator
  returns \<^verbatim>\<open>INV-0001\<close>; whatever is raised inside the block, the caller gets that
  identifier and no error.
\<close>

theorem getNextInvoiceNumber_fails_soft:
  "(settingsUnreachable db \<longrightarrow>
      getNextInvoiceNumber_try db = Inl FirestoreError \<and>
      getNextInvoiceNumber db = ''INV-0001'') \<and>
   (\<not> settingsUnreachable db \<and> fromSettings (settingsDocs db) = None \<and>
    invoicesUnreachable db \<longrightarrow>
      getNextInvoiceNumber_try db = Inl FirestoreError \<and>
      getNextInvoiceNumber db = ''INV-0001'') \<and>
   (\<forall>e. getNextInvoiceNumber_try db = Inl e \<longrightarrow> getNextInvoiceNumber db = ''INV-0001'')"
  by (simp add: getNextInvoiceNumber_def getNextInvoiceNumber_try_def getDocs_settings_def
      getDocs_lastInvoice_def)

theorem getNextInvoiceNumber_fails_soft_witness:
  "settingsUnreachable (emptyFirestore\<lparr>settingsDocs := [exampleSettings],
       settingsUnreachable := True\<rparr>) \<and>
   getNextInvoiceNumber (emptyFirestore\<lparr>settingsDocs := [exampleSettings],
       settingsUnreachable := True\<rparr>) = ''INV-0001'' \<and>
   invoicesUnreachable (emptyFirestore\<lparr>invoiceDocs := [exampleInvoice],
       invoicesUnreachable := True\<rparr>) \<and>
   getNextInvoiceNumber (emptyFirestore\<lparr>invoiceDocs := [exampleInvoice],
       invoicesUnreachable := True\<rparr>) = ''INV-0001''"
  using getNextInvoiceNumber_fails_soft
      [of "emptyFirestore\<lparr>settingsDocs := [exampleSettings], settingsUnreachable := True\<rparr>"]
    getNextInvoiceNumber_fails_soft
      [of "emptyFirestore\<lparr>invoiceDocs := [exampleInvoice], invoicesUnreachable := True\<rparr>"]
  by (simp add: emptyFirestore_def fromSettings_def)

text \<open>
  Submitting an invoice changes nothing the settings branch reads: at every store with a
  counter the proposal before and after is the same.
\<close>

lemma getNextInvoiceNumber_onSubmit_stored_counter:
  assumes "\<not> settingsUnreachable db" and "fromSettings (settingsDocs db) = Some k"
  shows "getNextInvoiceNumber db = k \<and> getNextInvoiceNumber (onSubmit db data) = k"
  using assms
  by (simp add: getNextInvoiceNumber_def getNextInvoiceNumber_try_def getDocs_settings_def
      onSubmit_def)

text \<open>
  C2 at a concrete store. The settings hold the counter 1001 and there is no invoice yet.
  The first allocation proposes \<^verbatim>\<open>INV-1001\<close>; the invoice is submitted under that
  number; the second allocation proposes \<^verbatim>\<open>INV-1001\<close> again, so the second suffix is
  not greater than the first.
\<close>

theorem stored_counter_is_proposed_twice:
  "getNextInvoiceNumber (emptyFirestore\<lparr>settingsDocs := [exampleSettings]\<rparr>) = ''INV-1001'' \<and>
   getNextInvoiceNumber
     (onSubmit (emptyFirestore\<lparr>settingsDocs := [exampleSettings]\<rparr>)
        (exampleInvoice\<lparr>invoiceNumber := ''INV-1001''\<rparr>)) = ''INV-1001'' \<and>
   numericSuffix ''INV-1001'' = Some 1001"
proof -
  let ?db = "emptyFirestore\<lparr>settingsDocs := [exampleSettings]\<rparr>"
  have "fromSettings (settingsDocs ?db) = Some ''INV-1001''"
    by (simp add: fromSettings_def exampleSettings_def formatInvoiceNumber_1001)
  moreover have "\<not> settingsUnreachable ?db"
    by (simp add: emptyFirestore_def)
  moreover have "numericSuffix ''INV-1001'' = Some 1001"
    by (simp add: numericSuffix_def string_eval)
  ultimately show ?thesis
    using getNextInvoiceNumber_onSubmit_stored_counter by blast
qed

text \<open>
  Without a counter the fallback repeats itself once the invoice numbers outgrow four
  digits, because the store orders them as strings: after \<^verbatim>\<open>INV-9999\<close> and
  \<^verbatim>\<open>INV-10000\<close> the proposal is \<^verbatim>\<open>INV-10000\<close> again.
\<close>

lemma fallback_repeats_beyond_four_digits:
  "getNextInvoiceNumber
     (emptyFirestore\<lparr>invoiceDocs := [exampleInvoice\<lparr>invoiceNumber := ''INV-9999''\<rparr>]\<rparr>)
     = ''INV-10000'' \<and>
   getNextInvoiceNumber
     (onSubmit (emptyFirestore\<lparr>invoiceDocs := [exampleInvoice\<lparr>invoiceNumber := ''INV-9999''\<rparr>]\<rparr>)
        (exampleInvoice\<lparr>invoiceNumber := ''INV-10000''\<rparr>)) = ''INV-10000''"
proof -
  let ?d = "exampleInvoice\<lparr>invoiceNumber := ''INV-9999''\<rparr>"
  let ?db = "emptyFirestore\<lparr>invoiceDocs := [?d]\<rparr>"
  let ?db' = "onSubmit ?db (exampleInvoice\<lparr>invoiceNumber := ''INV-10000''\<rparr>)"
  have le: "''INV-10000'' \<le> ''INV-9999''"
    by simp
  have none: "fromSettings (settingsDocs ?db) = None" "fromSettings (settingsDocs ?db') = None"
    by (simp_all add: fromSettings_def emptyFirestore_def onSubmit_def)
  have reach: "\<not> settingsUnreachable ?db" "\<not> settingsUnreachable ?db'"
    by (simp_all add: emptyFirestore_def onSubmit_def)
  obtain d1 where q1: "getDocs_lastInvoice ?db = Inr [d1]"
    and k1: "invoiceNumber d1 = ''INV-9999''"
    using getDocs_lastInvoice_highest [of ?db ?d "''INV-9999''"]
    by (auto simp: emptyFirestore_def)
  obtain d2 where q2: "getDocs_lastInvoice ?db' = Inr [d2]"
    and k2: "invoiceNumber d2 = ''INV-9999''"
    using le getDocs_lastInvoice_highest [of ?db' ?d "''INV-9999''"]
    by (auto simp: emptyFirestore_def onSubmit_def)
  show ?thesis
    using none reach q1 q2 fromLastInvoice_9999 [OF k1] fromLastInvoice_9999 [OF k2]
    by (simp add: getNextInvoiceNumber_def getNextInvoiceNumber_try_def getDocs_settings_def)
qed

section \<open>Properties of the money and date formatters\<close>

lemma showNat_lt10: "n < 10 \<Longrightarrow> showNat n = [digitChar n]"
  by (simp add: showNat.simps)

lemma showNat_ge10: "10 \<le> n \<Longrightarrow> showNat n = showNat (n div 10) @ [digitChar (n mod 10)]"
  by (subst showNat.simps) simp

lemma showNat_ge100:
  assumes "100 \<le> n"
  shows "showNat n = showNat (n div 100) @ [digitChar (n div 10 mod 10), digitChar (n mod 10)]"
proof -
  have "10 \<le> n" "10 \<le> n div 10"
    using assms by simp_all
  then have "showNat n =
      (showNat (n div 10 div 10) @ [digitChar (n div 10 mod 10)]) @ [digitChar (n mod 10)]"
    by (simp only: showNat_ge10)
  moreover have "n div 10 div 10 = n div 100"
    by (simp flip: div_mult2_eq)
  ultimately show ?thesis
    by simp
qed

lemma replicate_2: "replicate 2 x = [x, x]"
  by (simp add: numeral_2_eq_2)

lemma digitChar_0: "digitChar 0 = CHR ''0''"
  by (simp add: digitChar_def)

text \<open>
  The digit shuffling of \<open>toFixed\<close> with two fraction digits: pad to three digits,
  put the point before the last two.
\<close>

lemma fixed_point_digits:
  "(let m = showNat n; k = length m;
        m' = (if k \<le> 2 then replicate (2 + 1 - k) CHR ''0'' @ m else m);
        k' = (if k \<le> 2 then 2 + 1 else k)
    in take (k' - 2) m' @ ''.'' @ drop (k' - 2) m') =
   showNat (n div 100) @ ''.'' @ [digitChar (n div 10 mod 10), digitChar (n mod 10)]"
proof -
  consider "n < 10" | "10 \<le> n" "n < 100" | "100 \<le> n"
    by linarith
  then show ?thesis
  proof cases
    case 1
    then have d: "n div 100 = 0" "n div 10 = 0" "n mod 10 = n"
      by simp_all
    have m: "showNat n = [digitChar n]"
      using 1 by (rule showNat_lt10)
    have z: "showNat 0 = [digitChar 0]"
      by (rule showNat_lt10) simp
    show ?thesis
      unfolding Let_def m d z by (simp add: replicate_2 digitChar_0)
  next
    case 2
    then have d: "n div 100 = 0" and lt: "n div 10 < 10"
      by simp_all
    have m: "showNat n = [digitChar (n div 10), digitChar (n mod 10)]"
      using 2(1) lt by (simp add: showNat_ge10 showNat_lt10)
    have z: "showNat 0 = [digitChar 0]"
      by (rule showNat_lt10) simp
    have e: "n div 10 mod 10 = n div 10"
      using lt by simp
    show ?thesis
      unfolding Let_def m d z e by (simp add: replicate_2 digitChar_0)
  next
    case 3
    have m: "showNat n =
        showNat (n div 100) @ [digitChar (n div 10 mod 10), digitChar (n mod 10)]"
      using 3 by (rule showNat_ge100)
    have "showNat (n div 100) \<noteq> []"
      by (subst showNat.simps) simp
    then have "length (showNat (n div 100)) > 0"
      by simp
    then show ?thesis
      unfolding Let_def m by simp
  qed
qed

lemma toFixed_two_decimals:
  assumes "\<bar>x\<bar> < 10 ^ 21"
  shows "toFixed rt (Finite x) 2 = Inr (twoDecimals x)"
proof (cases "x < 0")
  case True
  then have a: "\<bar>x\<bar> = - x"
    by simp
  have "\<not> 10 ^ 21 \<le> - x"
    using assms a by simp
  then show ?thesis
    using True fixed_point_digits [of "hundredths x"]
    by (simp add: toFixed_def twoDecimals_def hundredths_def Let_def a)
next
  case False
  then have a: "\<bar>x\<bar> = x"
    by simp
  have "\<not> 10 ^ 21 \<le> x"
    using assms a by simp
  then show ?thesis
    using False fixed_point_digits [of "hundredths x"]
    by (simp add: toFixed_def twoDecimals_def hundredths_def Let_def a)
qed

text \<open>With two fraction digits \<open>toFixed\<close> never raises its RangeError.\<close>

lemma toFixed_2_Inr: "\<exists>s. toFixed rt d 2 = Inr s"
  by (simp add: toFixed_def Let_def split: double.split)

lemma formatCurrency_Inr: "\<exists>s. formatCurrency rt amount code symbol = Inr s"
  using toFixed_2_Inr [of rt amount] by (auto simp: formatCurrency_def)

text \<open>\<open>hundredths x\<close> is a nearest integer to the magnitude of \<open>x\<close> in hundredths.\<close>

lemma hundredths_nearest: "\<bar>of_nat (hundredths x) / 100 - \<bar>x\<bar>\<bar> \<le> 1 / 200"
proof -
  define a where "a = \<bar>x\<bar>"
  define k where "k = \<lfloor>a * 100 + 1 / 2\<rfloor>"
  have "0 \<le> a * 100 + 1 / 2"
    by (simp add: a_def)
  then have nn: "0 \<le> k"
    by (simp add: k_def)
  have h: "(of_nat (hundredths x) :: rat) = of_int k"
    using nn by (simp add: hundredths_def k_def a_def)
  have b: "of_int k \<le> a * 100 + 1 / 2" "a * 100 + 1 / 2 < of_int k + 1"
    unfolding k_def by linarith+
  have "\<bar>of_int k / 100 - a\<bar> \<le> 1 / 200"
    using b by linarith
  then show ?thesis
    unfolding h a_def .
qed

lemma hundredths_1234_5: "hundredths (2469 / 2) = 123450"
  by (simp add: hundredths_def floor_numeral_div)

lemma twoDecimals_1234_5: "twoDecimals (2469 / 2) = ''1234.50''"
  unfolding twoDecimals_def hundredths_1234_5 by (simp add: showNat.simps digitChar_def)

lemma dot_in_twoDecimals: "CHR ''.'' \<in> set (twoDecimals x)"
  unfolding twoDecimals_def set_append by simp

text \<open>
  C8, as the code has it. For every finite amount of magnitude below \<open>10^21\<close> and
  every currency code, the formatter, given the symbol the renderer looks up for the
  code, yields the symbol, a space and the amount in two decimals (rounded to the nearest
  hundredth); the symbol is that of the code for the four known codes and the dollar
  sign for every other code; and for every number whatever, an infinity and NaN among
  them, the call returns a string and raises nothing.
\<close>

theorem formatCurrency_two_decimals:
  assumes "\<bar>amount\<bar> < 10 ^ 21"
  shows "formatCurrency rt (Finite amount) code (getCurrencySymbol code) =
      Inr (getCurrencySymbol code @ '' '' @ twoDecimals amount) \<and>
    \<bar>of_nat (hundredths amount) / 100 - \<bar>amount\<bar>\<bar> \<le> 1 / 200 \<and>
    getCurrencySymbol ''SAR'' = ar_SAR \<and> getCurrencySymbol ''USD'' = ''$'' \<and>
    getCurrencySymbol ''EUR'' = euroSign \<and> getCurrencySymbol ''GBP'' = poundSign \<and>
    (code \<notin> {''SAR'', ''USD'', ''EUR'', ''GBP''} \<longrightarrow> getCurrencySymbol code = ''$'') \<and>
    (\<forall>a symbol. \<exists>s. formatCurrency rt a code symbol = Inr s)"
proof (intro conjI allI)
  show "formatCurrency rt (Finite amount) code (getCurrencySymbol code) =
      Inr (getCurrencySymbol code @ '' '' @ twoDecimals amount)"
    by (simp add: formatCurrency_def toFixed_two_decimals [OF assms])
  show "\<bar>of_nat (hundredths amount) / 100 - \<bar>amount\<bar>\<bar> \<le> 1 / 200"
    by (rule hundredths_nearest)
  show "code \<notin> {''SAR'', ''USD'', ''EUR'', ''GBP''} \<longrightarrow> getCurrencySymbol code = ''$''"
    by (simp add: getCurrencySymbol_def)
  show "\<exists>s. formatCurrency rt a code symbol = Inr s" for a symbol
    by (rule formatCurrency_Inr)
qed (simp_all add: getCurrencySymbol_def)

theorem formatCurrency_two_decimals_witness:
  "\<bar>2469 / 2 :: rat\<bar> < 10 ^ 21 \<and>
   formatCurrency exampleRuntime (Finite (2469 / 2)) ''USD'' (getCurrencySymbol ''USD'') =
     Inr ''$ 1234.50'' \<and>
   ''JPY'' \<notin> {''SAR'', ''USD'', ''EUR'', ''GBP''} \<and>
   formatCurrency exampleRuntime (Finite (2469 / 2)) ''JPY'' (getCurrencySymbol ''JPY'') =
     Inr ''$ 1234.50''"
  using formatCurrency_two_decimals [of "2469 / 2" exampleRuntime "''USD''"]
    formatCurrency_two_decimals [of "2469 / 2" exampleRuntime "''JPY''"]
  by (simp add: twoDecimals_1234_5 getCurrencySymbol_def)

text \<open>
  C8, as stated, fails: \<open>10^21\<close> is a finite amount, and there \<open>toFixed\<close> falls back
  to the plain conversion, so the result is \<^verbatim>\<open>$ 1e+21\<close>, which has no decimals.
\<close>

theorem formatCurrency_large_amount_counterexample:
  "formatCurrency exampleRuntime (Finite (10 ^ 21)) ''USD'' (getCurrencySymbol ''USD'') =
     Inr ''$ 1e+21'' \<and>
   ''$ 1e+21'' \<noteq> getCurrencySymbol ''USD'' @ '' '' @ twoDecimals (10 ^ 21)"
proof
  show "formatCurrency exampleRuntime (Finite (10 ^ 21)) ''USD'' (getCurrencySymbol ''USD'') =
     Inr ''$ 1e+21''"
    by (simp add: formatCurrency_def toFixed_def getCurrencySymbol_def exampleRuntime_def
        exampleNumberToString_def)
next
  show "''$ 1e+21'' \<noteq> getCurrencySymbol ''USD'' @ '' '' @ twoDecimals (10 ^ 21)"
  proof
    assume "''$ 1e+21'' = getCurrencySymbol ''USD'' @ '' '' @ twoDecimals (10 ^ 21)"
    then have "set ''$ 1e+21'' =
        set (getCurrencySymbol ''USD'' @ '' '' @ twoDecimals (10 ^ 21))"
      by (rule arg_cong)
    then have "CHR ''.'' \<in> set ''$ 1e+21''"
      using dot_in_twoDecimals [of "10 ^ 21"] by (simp only: set_append) blast
    then show False
      by simp
  qed
qed

text \<open>
  C9, as the code has it. An absent date renders as \<^verbatim>\<open>N/A\<close>. A date that cannot be
  parsed, whether it arrives as an invalid date or makes the conversion throw, renders as
  \<^verbatim>\<open>Invalid Date\<close>. A valid date renders as the locale renders it. No case raises.
\<close>

theorem formatDate_placeholders:
  "formatDate rt isArabic Absent = ''N/A'' \<and>
   formatDate rt isArabic (DateInput InvalidDate) = ''Invalid Date'' \<and>
   formatDate rt isArabic (Timestamp InvalidDate) = ''Invalid Date'' \<and>
   formatDate_try rt isArabic Throwing = Inl TypeError \<and>
   formatDate rt isArabic Throwing = ''Invalid Date'' \<and>
   formatDate rt isArabic (DateInput (Date t)) =
     toLocaleDateString rt (if isArabic then ''ar-SA'' else ''en-US'') t \<and>
   formatDate rt isArabic (Timestamp (Date t)) =
     toLocaleDateString rt (if isArabic then ''ar-SA'' else ''en-US'') t"
  by (simp add: formatDate_def formatDate_try_def toLocaleDateString_of_def)

text \<open>
  C9, as stated, fails: a date string that cannot be parsed does not render as the
  marker of an absent date.
\<close>

theorem formatDate_unparseable_counterexample:
  "formatDate exampleRuntime False (DateInput InvalidDate) \<noteq> ''N/A'' \<and>
   formatDate exampleRuntime False (DateInput InvalidDate) \<noteq>
     formatDate exampleRuntime False Absent"
  by (simp add: formatDate_def formatDate_try_def toLocaleDateString_of_def)

section \<open>Properties of the document layout engine\<close>

subsection \<open>The clock is read by the footer only\<close>

lemma header_now [simp]: "header (rt\<lparr>now := t\<rparr>) settings st = header rt settings st"
  by (simp add: header_def)

lemma companyDetails_now [simp]:
  "companyDetails (rt\<lparr>now := t\<rparr>) settings ar al st = companyDetails rt settings ar al st"
  by (simp add: companyDetails_def)

lemma toLocaleDateString_of_now [simp]:
  "toLocaleDateString_of (rt\<lparr>now := t\<rparr>) d l = toLocaleDateString_of rt d l"
  by (simp add: toLocaleDateString_of_def split: JsDate.split)

lemma formatDate_now [simp]: "formatDate (rt\<lparr>now := t\<rparr>) ar d = formatDate rt ar d"
  by (simp add: formatDate_def formatDate_try_def cong: sum.case_cong)

lemma invoiceDetails_now [simp]:
  "invoiceDetails (rt\<lparr>now := t\<rparr>) invoice ar st = invoiceDetails rt invoice ar st"
  by (simp add: invoiceDetails_def)

lemma clientInformation_now [simp]:
  "clientInformation (rt\<lparr>now := t\<rparr>) invoice ar al st = clientInformation rt invoice ar al st"
  by (simp add: clientInformation_def)

lemma toFixed_now [simp]: "toFixed (rt\<lparr>now := t\<rparr>) x f = toFixed rt x f"
  by (simp add: toFixed_def Let_def split: double.split)

lemma formatCurrency_now [simp]:
  "formatCurrency (rt\<lparr>now := t\<rparr>) a c s = formatCurrency rt a c s"
  by (simp add: formatCurrency_def)

lemma tableRow_now [simp]:
  "tableRow (rt\<lparr>now := t\<rparr>) c s = tableRow rt c s"
  by (rule ext) (simp add: tableRow_def cong: sum.case_cong)

lemma tableRows_now [simp]:
  "tableRows (rt\<lparr>now := t\<rparr>) c s its = tableRows rt c s its"
  by (simp add: tableRows_def)

lemma itemsTable_now [simp]:
  "itemsTable (rt\<lparr>now := t\<rparr>) ar rows st = itemsTable rt ar rows st"
  by (simp add: itemsTable_def cong: sum.case_cong)

lemma summary_now [simp]:
  "summary (rt\<lparr>now := t\<rparr>) invoice ar c s st = summary rt invoice ar c s st"
  by (simp add: summary_def cong: sum.case_cong)

lemma notesBlock_now [simp]:
  "notesBlock (rt\<lparr>now := t\<rparr>) invoice ar al st = notesBlock rt invoice ar al st"
  by (simp add: notesBlock_def)

lemma termsBlock_now [simp]:
  "termsBlock (rt\<lparr>now := t\<rparr>) settings ar al st = termsBlock rt settings ar al st"
  by (simp add: termsBlock_def)

lemma beforeFooter_now:
  "beforeFooter (rt\<lparr>now := t\<rparr>) invoice settings = beforeFooter rt invoice settings"
  by (simp add: beforeFooter_def cong: sum.case_cong)

subsection \<open>No error escapes the renderer\<close>

lemma tableRow_Inr: "\<exists>row. tableRow rt c s item = Inr row"
proof -
  obtain p where p: "formatCurrency rt (price item) c s = Inr p"
    using formatCurrency_Inr by blast
  obtain q where q: "formatCurrency rt (or_else (total item) (quantity item * price item)) c s = Inr q"
    using formatCurrency_Inr by blast
  show ?thesis by (simp add: tableRow_def p q)
qed

lemma sequence_map_Inr:
  assumes "\<And>x. \<exists>v. f x = Inr v"
  shows "\<exists>vs. sequence (map f xs) = Inr vs"
proof (induction xs)
  case Nil
  show ?case by simp
next
  case (Cons x xs)
  from assms obtain v where "f x = Inr v" by blast
  moreover from Cons obtain vs where "sequence (map f xs) = Inr vs" by blast
  ultimately show ?case by simp
qed

lemma tableRows_Inr: "\<exists>rows. tableRows rt c s its = Inr rows"
  unfolding tableRows_def by (rule sequence_map_Inr) (rule tableRow_Inr)

lemma summary_Inr: "\<exists>st'. summary rt invoice ar c s st = Inr st'"
proof -
  obtain a where a: "formatCurrency rt (subtotal invoice) c s = Inr a"
    using formatCurrency_Inr by blast
  obtain b where b: "formatCurrency rt (tax invoice) c s = Inr b"
    using formatCurrency_Inr by blast
  obtain d where d: "formatCurrency rt (totalAmount invoice) c s = Inr d"
    using formatCurrency_Inr by blast
  show ?thesis unfolding summary_def Let_def a b d by simp
qed

lemma case_sum_Inr:
  "\<exists>v. x = Inr v \<Longrightarrow> \<exists>st. (case x of Inl e \<Rightarrow> Inl e | Inr v \<Rightarrow> Inr (g v)) = Inr st"
  by auto

lemma beforeFooter_Inr: "\<exists>st. beforeFooter rt invoice settings = Inr st"
proof -
  let ?c = "str_or_else (setting currency settings) ''USD''"
  obtain rows where r: "tableRows rt ?c (getCurrencySymbol ?c) (items invoice) = Inr rows"
    using tableRows_Inr by blast
  show ?thesis
    unfolding beforeFooter_def Let_def r sum.case
    by (rule case_sum_Inr) (rule summary_Inr)
qed

lemma generatePdf_footer_structure:
  "\<exists>pre suf. \<forall>t. generatePdf (rt\<lparr>now := t\<rparr>) invoice settings =
     Inr (pre @ [Text (footerText (rt\<lparr>now := t\<rparr>) (setting language settings = ''ar''))
                  (pageWidth rt / 2) (pageHeight rt - 10) (Some AlignCenter) None] @ suf)"
proof -
  obtain st where st: "beforeFooter rt invoice settings = Inr st"
    using beforeFooter_Inr by blast
  have "generatePdf (rt\<lparr>now := t\<rparr>) invoice settings =
     Inr ((fst st @ [SetFontSize 8]) @ [Text (footerText (rt\<lparr>now := t\<rparr>) (setting language settings = ''ar''))
                  (pageWidth rt / 2) (pageHeight rt - 10) (Some AlignCenter) None] @ [Save (fileName invoice (setting language settings = ''ar''))])" for t
    by (simp add: generatePdf_def beforeFooter_now st footer_def emit_def Let_def)
  then show ?thesis by blast
qed

lemma footerText_example_0:
  "footerText (exampleRuntime\<lparr>now := 0\<rparr>) False = ''Generated on 1/1/1970, 12:00:00 AM''"
  by (simp add: footerText_def exampleRuntime_def exampleToLocaleString_def)

lemma footerText_example_500:
  "footerText (exampleRuntime\<lparr>now := 500\<rparr>) False = ''Generated on 1/1/1970, 12:00:00 AM''"
  by (simp add: footerText_def exampleRuntime_def exampleToLocaleString_def)

lemma footerText_example_1000:
  "footerText (exampleRuntime\<lparr>now := 1000\<rparr>) False = ''Generated on 1/1/1970, 12:00:01 AM''"
  by (simp add: footerText_def exampleRuntime_def exampleToLocaleString_def)

lemma example_not_arabic: "(setting language (Some exampleSettings) = ''ar'') = False"
  by (simp add: setting_def strOf_def exampleSettings_def)

text \<open>
  C5, as the code has it. With the invoice, the settings and the platform fixed, the
  calls the renderer makes depend on the time of the call through the text of the footer
  line only. Two invocations whose generation times render to the same footer text make
  identical sequences of calls; and any invocation makes the same calls before and after
  the footer line, whatever the clock reads.
\<close>

theorem generatePdf_depends_on_clock_through_footer_only:
  "(footerText (rt\<lparr>now := t1\<rparr>) (setting language settings = ''ar'') =
    footerText (rt\<lparr>now := t2\<rparr>) (setting language settings = ''ar'') \<longrightarrow>
      generatePdf (rt\<lparr>now := t1\<rparr>) invoice settings =
      generatePdf (rt\<lparr>now := t2\<rparr>) invoice settings) \<and>
   (\<exists>pre suf. \<forall>t. generatePdf (rt\<lparr>now := t\<rparr>) invoice settings =
     Inr (pre @ [Text (footerText (rt\<lparr>now := t\<rparr>) (setting language settings = ''ar''))
                  (pageWidth rt / 2) (pageHeight rt - 10) (Some AlignCenter) None] @ suf))"
proof
  obtain pre suf where s: "\<And>t. generatePdf (rt\<lparr>now := t\<rparr>) invoice settings =
     Inr (pre @ [Text (footerText (rt\<lparr>now := t\<rparr>) (setting language settings = ''ar''))
                  (pageWidth rt / 2) (pageHeight rt - 10) (Some AlignCenter) None] @ suf)"
    using generatePdf_footer_structure [where rt = rt and invoice = invoice and settings = settings]
    by blast
  show "footerText (rt\<lparr>now := t1\<rparr>) (setting language settings = ''ar'') =
    footerText (rt\<lparr>now := t2\<rparr>) (setting language settings = ''ar'') \<longrightarrow>
      generatePdf (rt\<lparr>now := t1\<rparr>) invoice settings =
      generatePdf (rt\<lparr>now := t2\<rparr>) invoice settings"
    by (simp add: s)
  show "\<exists>pre suf. \<forall>t. generatePdf (rt\<lparr>now := t\<rparr>) invoice settings =
     Inr (pre @ [Text (footerText (rt\<lparr>now := t\<rparr>) (setting language settings = ''ar''))
                  (pageWidth rt / 2) (pageHeight rt - 10) (Some AlignCenter) None] @ suf)"
    by (rule generatePdf_footer_structure)
qed

theorem generatePdf_depends_on_clock_through_footer_only_witness:
  "footerText (exampleRuntime\<lparr>now := 0\<rparr>) (setting language (Some exampleSettings) = ''ar'') =
    footerText (exampleRuntime\<lparr>now := 500\<rparr>) (setting language (Some exampleSettings) = ''ar'') \<and>
   generatePdf (exampleRuntime\<lparr>now := 0\<rparr>) exampleInvoice (Some exampleSettings) =
   generatePdf (exampleRuntime\<lparr>now := 500\<rparr>) exampleInvoice (Some exampleSettings)"
  using generatePdf_depends_on_clock_through_footer_only
      [where rt = exampleRuntime and ?t1.0 = 0 and ?t2.0 = 500 and settings = "Some exampleSettings"
      and invoice = exampleInvoice]
  unfolding example_not_arabic footerText_example_0 footerText_example_500 by simp

text \<open>
  C5, as stated, fails: the same invoice and settings rendered at the epoch and one
  second later give different sequences of calls, because the footer prints the
  generation time.
\<close>

theorem generatePdf_two_invocations_differ_counterexample:
  "generatePdf (exampleRuntime\<lparr>now := 0\<rparr>) exampleInvoice (Some exampleSettings) \<noteq>
   generatePdf (exampleRuntime\<lparr>now := 1000\<rparr>) exampleInvoice (Some exampleSettings)"
proof -
  obtain pre suf where s: "\<And>t. generatePdf (exampleRuntime\<lparr>now := t\<rparr>) exampleInvoice (Some exampleSettings) =
     Inr (pre @ [Text (footerText (exampleRuntime\<lparr>now := t\<rparr>) (setting language (Some exampleSettings) = ''ar''))
                  (pageWidth exampleRuntime / 2) (pageHeight exampleRuntime - 10) (Some AlignCenter) None] @ suf)"
    using generatePdf_footer_structure
      [where rt = exampleRuntime and invoice = exampleInvoice and settings = "Some exampleSettings"]
    by blast
  show ?thesis
    unfolding s example_not_arabic footerText_example_0 footerText_example_1000 by simp
qed

subsection \<open>Every block appends to the calls made so far\<close>

lemma prefix_emit: "prefix ops (fst st) \<Longrightarrow> prefix ops (fst (emit i st))"
  by (simp add: emit_def)

lemma prefix_advance: "prefix ops (fst st) \<Longrightarrow> prefix ops (fst (advance d st))"
  by (simp add: advance_def)

lemma prefix_optionalLine:
  "prefix ops (fst st) \<Longrightarrow> prefix ops (fst (optionalLine present str x align st))"
  by (simp add: optionalLine_def prefix_emit prefix_advance)

lemmas prefix_steps = prefix_emit prefix_advance prefix_optionalLine

lemma prefix_companyDetails:
  "prefix ops (fst st) \<Longrightarrow> prefix ops (fst (companyDetails rt settings ar al st))"
  unfolding companyDetails_def Let_def by (intro prefix_steps)

lemma prefix_invoiceDetails:
  "prefix ops (fst st) \<Longrightarrow> prefix ops (fst (invoiceDetails rt invoice ar st))"
  unfolding invoiceDetails_def Let_def by (intro prefix_steps)

lemma prefix_clientInformation:
  "prefix ops (fst st) \<Longrightarrow> prefix ops (fst (clientInformation rt invoice ar al st))"
  unfolding clientInformation_def Let_def by (intro prefix_steps)

lemma prefix_itemsTable:
  "prefix ops (fst st) \<Longrightarrow> prefix ops (fst (itemsTable rt ar rows st))"
  unfolding itemsTable_def Let_def
  by (cases "autoTable_finalY rt (tableOptions ar (snd st) rows)")
     (simp_all add: prefix_steps)

lemma prefix_summary:
  assumes "prefix ops (fst st)" and "summary rt invoice ar c s st = Inr st'"
  shows "prefix ops (fst st')"
proof -
  obtain a where a: "formatCurrency rt (subtotal invoice) c s = Inr a"
    using formatCurrency_Inr by blast
  obtain b where b: "formatCurrency rt (tax invoice) c s = Inr b"
    using formatCurrency_Inr by blast
  obtain d where d: "formatCurrency rt (totalAmount invoice) c s = Inr d"
    using formatCurrency_Inr by blast
  have "prefix ops (fst (projr (summary rt invoice ar c s st)))"
    unfolding summary_def Let_def a b d sum.case sum.sel
    by (intro prefix_steps) (rule assms(1))
  then show ?thesis
    by (simp add: assms(2))
qed

lemma prefix_notesBlock:
  "prefix ops (fst st) \<Longrightarrow> prefix ops (fst (notesBlock rt invoice ar al st))"
  unfolding notesBlock_def Let_def by (simp add: prefix_steps)

lemma prefix_termsBlock:
  "prefix ops (fst st) \<Longrightarrow> prefix ops (fst (termsBlock rt settings ar al st))"
  unfolding termsBlock_def Let_def by (simp add: prefix_steps)

lemma generatePdf_starts_with_header:
  "\<exists>rest. generatePdf rt invoice settings = Inr (fst (header rt settings ([], margin)) @ rest)"
proof -
  let ?ar = "setting language settings = ''ar''"
  let ?al = "if ?ar then AlignRight else AlignLeft"
  let ?c = "str_or_else (setting currency settings) ''USD''"
  let ?h = "header rt settings ([], margin)"
  obtain rows where r: "tableRows rt ?c (getCurrencySymbol ?c) (items invoice) = Inr rows"
    using tableRows_Inr by blast
  let ?st4 = "itemsTable rt ?ar rows (clientInformation rt invoice ?ar ?al
      (invoiceDetails rt invoice ?ar (companyDetails rt settings ?ar ?al ?h)))"
  obtain st5 where s: "summary rt invoice ?ar ?c (getCurrencySymbol ?c) ?st4 = Inr st5"
    using summary_Inr by blast
  have "prefix (fst ?h) (fst ?st4)"
    by (intro prefix_itemsTable prefix_clientInformation prefix_invoiceDetails
        prefix_companyDetails) simp
  then have p5: "prefix (fst ?h) (fst st5)"
    using s by (rule prefix_summary)
  let ?st7 = "termsBlock rt settings ?ar ?al (notesBlock rt invoice ?ar ?al st5)"
  have p7: "prefix (fst ?h) (fst ?st7)"
    using p5 by (intro prefix_termsBlock prefix_notesBlock)
  have b: "beforeFooter rt invoice settings = Inr ?st7"
    unfolding beforeFooter_def Let_def r sum.case s ..
  have "prefix (fst ?h) (fst (emit (Save (fileName invoice ?ar)) (footer rt ?ar ?st7)))"
    using p7 unfolding footer_def Let_def by (intro prefix_steps)
  moreover have "generatePdf rt invoice settings =
      Inr (fst (emit (Save (fileName invoice ?ar)) (footer rt ?ar ?st7)))"
    unfolding generatePdf_def Let_def b sum.case ..
  ultimately show ?thesis
    by (auto simp: prefix_def)
qed

lemma header_example:
  "header exampleRuntime (Some (exampleSettings\<lparr>language := l\<rparr>)) ([], margin) =
     ([SetFontSize 24, Text ''Acme'' 20 20 None None], 35)"
  by (simp add: header_def setting_def strOf_def exampleSettings_def emptySettings_def
      str_or_else_def emit_def advance_def margin_def Let_def)

text \<open>
  C6 at a concrete input. With no logo and the company name \<^verbatim>\<open>Acme\<close>, the render
  of an Arabic (right-to-left) and of an English (left-to-right) settings record both
  begin with the company name drawn at the left margin, \<open>x = 20\<close>, with no alignment
  option: the heading is not moved to the right margin, \<open>x = 190\<close>, in the
  right-to-left render.
\<close>

theorem header_is_drawn_at_left_margin_in_both_directions:
  "(\<exists>rest. generatePdf exampleRuntime exampleInvoice
       (Some (exampleSettings\<lparr>language := Some ''ar''\<rparr>)) =
       Inr ([SetFontSize 24, Text ''Acme'' 20 20 None None] @ rest)) \<and>
   (\<exists>rest. generatePdf exampleRuntime exampleInvoice
       (Some (exampleSettings\<lparr>language := Some ''en''\<rparr>)) =
       Inr ([SetFontSize 24, Text ''Acme'' 20 20 None None] @ rest)) \<and>
   margin = 20 \<and> pageWidth exampleRuntime - margin = 190"
proof (intro conjI)
  show "\<exists>rest. generatePdf exampleRuntime exampleInvoice
       (Some (exampleSettings\<lparr>language := Some ''ar''\<rparr>)) =
       Inr ([SetFontSize 24, Text ''Acme'' 20 20 None None] @ rest)"
    using generatePdf_starts_with_header [where rt = exampleRuntime and invoice = exampleInvoice
        and settings = "Some (exampleSettings\<lparr>language := Some ''ar''\<rparr>)"]
    unfolding header_example fst_conv .
  show "\<exists>rest. generatePdf exampleRuntime exampleInvoice
       (Some (exampleSettings\<lparr>language := Some ''en''\<rparr>)) =
       Inr ([SetFontSize 24, Text ''Acme'' 20 20 None None] @ rest)"
    using generatePdf_starts_with_header [where rt = exampleRuntime and invoice = exampleInvoice
        and settings = "Some (exampleSettings\<lparr>language := Some ''en''\<rparr>)"]
    unfolding header_example fst_conv .
  show "margin = 20"
    by (simp add: margin_def)
  show "pageWidth exampleRuntime - margin = 190"
    by (simp add: margin_def exampleRuntime_def)
qed

text \<open>
  The address line that follows is mirrored, and so the heading and the block under it sit
  at opposite edges of a right-to-left page.
\<close>

lemma companyDetails_example_rtl:
  "fst (companyDetails exampleRuntime (Some (exampleSettings\<lparr>language := Some ''ar''\<rparr>)) True AlignRight ([], 35)) =
     [SetFontSize 10, Text ''1 Main Street'' 190 35 (Some AlignRight) None]"
  by (simp add: companyDetails_def optionalLine_def setting_def strOf_def exampleSettings_def emptySettings_def
      emit_def advance_def margin_def Let_def exampleRuntime_def)

text \<open>
  The line drawn when the table fails is the second block fixed to the left margin.
\<close>

lemma itemsTable_fallback_ignores_direction:
  assumes "autoTable_finalY rt (tableOptions ar (snd st) rows) = Inl e"
  shows "itemsTable rt ar rows st =
    (fst st @ [AutoTable (tableOptions ar (snd st) rows),
       Text ''Error generating table. Please check console for details.'' margin (snd st + 10) None None],
     snd st + 80)"
  using assms by (simp add: itemsTable_def Let_def emit_def advance_def)

end
